theory Spec2Isabelle
  imports Complex_Main "HOL-Library.AList"
begin

section \<open>The metrics pipeline of \<^verbatim>\<open>src/utils/dataProcessor.ts\<close>\<close>

text \<open>
  The development embeds \<^verbatim>\<open>processData\<close>: cleaning of the three datasets, identity
  linking, cohort building, retention and conversion evaluation, the per-cohort metrics
  and the per-studio rollup.

  Modelling decisions.
  \<^item> A JavaScript string is a \<^typ>\<open>string\<close> of 8-bit characters; \<^verbatim>\<open>toLowerCase\<close> acts on
    the letters A to Z.
  \<^item> A JavaScript number that holds a count is an \<^typ>\<open>int\<close>; an amount of money is an
    exact \<^typ>\<open>rat\<close> (rounding of binary floating point is not modelled). A number
    that results from a division is a \<^typ>\<open>rat option\<close>: \<open>None\<close> stands for the
    non-finite results \<^verbatim>\<open>NaN\<close> and \<^verbatim>\<open>Infinity\<close> that a division by zero gives.
  \<^item> The functions imported from \<^verbatim>\<open>./csvParser\<close> and the built-ins \<^verbatim>\<open>new Date(s).getTime()\<close>
    and \<^verbatim>\<open>parseFloat\<close> are parameters, collected in the record \<open>env\<close>; the theorems hold
    for every such environment.
  \<^item> Record fields that no step after the cleaning reads are left out, as are the progress
    callback, the logging, the client detail lists and the two chart series (the weekly
    series is the only user of \<^verbatim>\<open>parseDate\<close>).
\<close>

subsection \<open>Strings and small helpers\<close>

text \<open>
  \<^verbatim>\<open>toLowerCase\<close>: the codes 65 to 90 are the letters A to Z; the small letter is 32
  more, which is the same code with bit 5 set.
\<close>

definition toLowerCase :: "string \<Rightarrow> string" where
  "toLowerCase s =
     map (\<lambda>c. if 65 \<le> (of_char c :: nat) \<and> (of_char c :: nat) \<le> 90
              then (case c of Char b0 b1 b2 b3 b4 b5 b6 b7 \<Rightarrow> Char b0 b1 b2 b3 b4 True b6 b7)
              else c) s"

fun startsWith :: "string \<Rightarrow> string \<Rightarrow> bool" where
  "startsWith s [] = True"
| "startsWith [] (d # ds) = False"
| "startsWith (c # cs) (d # ds) = (c = d \<and> startsWith cs ds)"

text \<open>\<^verbatim>\<open>s.includes(sub)\<close>: \<open>sub\<close> occurs in \<open>s\<close> as a contiguous block.\<close>

fun js_includes :: "string \<Rightarrow> string \<Rightarrow> bool" where
  "js_includes [] sub = (sub = [])"
| "js_includes (c # cs) sub = (startsWith (c # cs) sub \<or> js_includes cs sub)"

text \<open>\<^verbatim>\<open>[...new Set(xs)]\<close>: the distinct elements of \<open>xs\<close>, each at its first occurrence.\<close>

definition uniq :: "'a list \<Rightarrow> 'a list" where
  "uniq xs = rev (remdups (rev xs))"

subsection \<open>The environment: \<^verbatim>\<open>csvParser\<close> and built-ins\<close>

record env =
  formatDateString :: "string \<Rightarrow> string"
  cleanFirstVisitValue :: "string \<Rightarrow> string"
  getMonthYearFromDate :: "string \<Rightarrow> string"
  matchesPattern :: "string \<Rightarrow> string \<Rightarrow> bool"
  isDateAfter :: "string \<Rightarrow> string \<Rightarrow> bool"
  getTime :: "string \<Rightarrow> int option"
  parseFloat :: "string \<Rightarrow> rat option"

text \<open>
  \<open>getTime e s\<close> is \<^verbatim>\<open>new Date(s).getTime()\<close> and \<open>parseFloat e s\<close> is \<^verbatim>\<open>parseFloat(s)\<close>;
  \<open>None\<close> is \<^verbatim>\<open>NaN\<close>.
\<close>

subsection \<open>Input records\<close>

text \<open>
  \<open>New_Teacher\<close> is the optional field \<^verbatim>\<open>'Teacher'\<close> of \<^verbatim>\<open>NewRecord\<close>, which the
  identity linker fills in; the booking's field keeps the name \<open>Teacher\<close>.
\<close>

record NewRecord =
  Email :: string
  Membership_used :: string
  First_visit_at :: string
  First_visit :: string
  First_visit_location :: string
  New_Teacher :: "string option"

record BookingRecord =
  Class_Name :: string
  Class_Date :: string
  Location :: string
  Teacher :: string
  Customer_Email :: string
  Cancelled :: string
  Late_Cancelled :: string
  No_Show :: string

text \<open>\<^verbatim>\<open>'Sale value': string | number\<close> before cleaning, a number after it.\<close>

datatype raw_number = Str string | Num rat

record 'v SaleRecord =
  Category :: string
  Item :: string
  Date :: string
  Sale_value :: 'v
  Refunded :: string
  Paying_Customer_email :: string
  Customer_email :: string

subsection \<open>Step 1: cleaning\<close>

definition cleanedNewData :: "env \<Rightarrow> NewRecord list \<Rightarrow> NewRecord list" where
  "cleanedNewData e newData =
     map (\<lambda>record. record\<lparr>First_visit_at := formatDateString e (First_visit_at record),
                           First_visit := cleanFirstVisitValue e (First_visit record)\<rparr>) newData"

definition cleanedBookingsData :: "env \<Rightarrow> BookingRecord list \<Rightarrow> BookingRecord list" where
  "cleanedBookingsData e bookingsData =
     map (\<lambda>record. record\<lparr>Class_Date := formatDateString e (Class_Date record),
                           Class_Name := cleanFirstVisitValue e (Class_Name record)\<rparr>) bookingsData"

text \<open>
  \<^verbatim>\<open>parseFloat(v.replace(/[^0-9.-]+/g, '')) || 0\<close> for a string, \<^verbatim>\<open>v || 0\<close> for a number.
\<close>

definition cleanSaleValue :: "env \<Rightarrow> raw_number \<Rightarrow> rat" where
  "cleanSaleValue e v =
     (case v of
        Str s \<Rightarrow> (case parseFloat e (filter (\<lambda>c. c \<in> set ''0123456789.-'') s) of
                    None \<Rightarrow> 0 | Some x \<Rightarrow> x)
      | Num x \<Rightarrow> x)"

definition cleanedSalesData :: "env \<Rightarrow> raw_number SaleRecord list option \<Rightarrow> rat SaleRecord list" where
  "cleanedSalesData e salesData =
     (case salesData of
        None \<Rightarrow> []
      | Some sales \<Rightarrow>
          map (\<lambda>record. \<lparr>Category = Category record, Item = Item record,
                          Date = formatDateString e (Date record),
                          Sale_value = cleanSaleValue e (Sale_value record),
                          Refunded = Refunded record,
                          Paying_Customer_email = Paying_Customer_email record,
                          Customer_email = Customer_email record\<rparr>) sales)"

subsection \<open>Step 2: identity linking\<close>

definition enrichedNewData :: "NewRecord list \<Rightarrow> BookingRecord list \<Rightarrow> NewRecord list" where
  "enrichedNewData cleanedNew cleanedBookings =
     map (\<lambda>newRecord.
            newRecord\<lparr>New_Teacher :=
              Some (case find (\<lambda>booking. Customer_Email booking = Email newRecord \<and>
                                          Class_Name booking = First_visit newRecord \<and>
                                          Class_Date booking = First_visit_at newRecord \<and>
                                          Location booking = First_visit_location newRecord)
                               cleanedBookings of
                      Some matchingBooking \<Rightarrow> Teacher matchingBooking
                    | None \<Rightarrow> ''Unknown'')\<rparr>) cleanedNew"

subsection \<open>Step 3: locations, teachers, periods\<close>

definition locations_of :: "NewRecord list \<Rightarrow> string list" where
  "locations_of enriched = uniq (map First_visit_location enriched)"

definition teachers_of :: "BookingRecord list \<Rightarrow> string list" where
  "teachers_of cleanedBookings =
     uniq (filter (\<lambda>teacher. teacher \<noteq> [] \<and> teacher \<noteq> ''Unknown'') (map Teacher cleanedBookings))"

definition periods_of :: "env \<Rightarrow> NewRecord list \<Rightarrow> string list" where
  "periods_of e enriched = uniq (map (\<lambda>record. getMonthYearFromDate e (First_visit_at record)) enriched)"

subsection \<open>Step 4: one cohort\<close>

definition teacherNewClients :: "env \<Rightarrow> string \<Rightarrow> string \<Rightarrow> string \<Rightarrow> NewRecord list \<Rightarrow> NewRecord list" where
  "teacherNewClients e teacher loc per enriched =
     filter (\<lambda>record. New_Teacher record = Some teacher \<and>
                      First_visit_location record = loc \<and>
                      getMonthYearFromDate e (First_visit_at record) = per \<and>
                      \<not> matchesPattern e (Membership_used record) ''friends|family|staff'' \<and>
                      \<not> matchesPattern e (First_visit record) ''friends|family|staff'') enriched"

definition teacherBookings :: "env \<Rightarrow> string \<Rightarrow> string \<Rightarrow> string \<Rightarrow> BookingRecord list \<Rightarrow> BookingRecord list" where
  "teacherBookings e teacher loc per cleanedBookings =
     filter (\<lambda>booking. Teacher booking = teacher \<and> Location booking = loc \<and>
                       getMonthYearFromDate e (Class_Date booking) = per) cleanedBookings"

paragraph \<open>Channel counts\<close>

text \<open>
  The source's locals \<^verbatim>\<open>trials\<close>, \<^verbatim>\<open>referrals\<close>, \<^verbatim>\<open>hosted\<close>, \<^verbatim>\<open>influencerSignups\<close> and
  \<^verbatim>\<open>others\<close>; the fields of the result row keep these names.
\<close>

definition count_trials :: "env \<Rightarrow> NewRecord list \<Rightarrow> int" where
  "count_trials e clients =
     int (length (filter (\<lambda>record. matchesPattern e (Membership_used record)
                                     ''Studio Open Barre Class|Newcomers 2 For 1'') clients))"

definition count_referrals :: "NewRecord list \<Rightarrow> int" where
  "count_referrals clients =
     int (length (filter (\<lambda>record. Membership_used record = ''Studio Complimentary Referral Class'')
                    clients))"

definition count_hosted :: "env \<Rightarrow> NewRecord list \<Rightarrow> int" where
  "count_hosted e clients =
     int (length (filter (\<lambda>record. matchesPattern e (First_visit record)
                     ''hosted|x|p57|physique|weword|rugby|outdoor|birthday|bridal|shower'') clients))"

definition count_influencerSignups :: "env \<Rightarrow> NewRecord list \<Rightarrow> int" where
  "count_influencerSignups e clients =
     int (length (filter (\<lambda>record. matchesPattern e (Membership_used record)
                     ''sign-up|link|influencer|twain|ooo|lrs|x|p57|physique|complimentary'') clients))"

definition count_others :: "env \<Rightarrow> NewRecord list \<Rightarrow> int" where
  "count_others e clients =
     int (length clients) -
       (count_trials e clients + count_referrals clients + count_hosted e clients +
        count_influencerSignups e clients)"

paragraph \<open>Retention\<close>

definition returnVisits :: "env \<Rightarrow> NewRecord list \<Rightarrow> BookingRecord list \<Rightarrow> BookingRecord list" where
  "returnVisits e clients cleanedBookings =
     filter (\<lambda>booking.
               case find (\<lambda>client. Email client = Customer_Email booking) clients of
                 None \<Rightarrow> False
               | Some matchingClient \<Rightarrow>
                   isDateAfter e (Class_Date booking) (First_visit_at matchingClient) \<and>
                   Cancelled booking = ''NO'' \<and> Late_Cancelled booking = ''NO'' \<and>
                   No_Show booking = ''NO'') cleanedBookings"

definition isRetained :: "BookingRecord list \<Rightarrow> NewRecord \<Rightarrow> bool" where
  "isRetained visits client =
     (let clientReturnVisits = filter (\<lambda>visit. Customer_Email visit = Email client) visits
      in if js_includes (toLowerCase (First_visit client)) ''2 for 1''
         then length clientReturnVisits \<ge> 2
         else length clientReturnVisits \<ge> 1)"

text \<open>The \<^verbatim>\<open>forEach\<close> over the cohort that pushes the e-mail of each retained client.\<close>

definition retainedClientEmails :: "BookingRecord list \<Rightarrow> NewRecord list \<Rightarrow> string list" where
  "retainedClientEmails visits clients =
     foldl (\<lambda>emails client. if isRetained visits client then emails @ [Email client] else emails)
       [] clients"

paragraph \<open>Conversion\<close>

text \<open>The reason strings, by template and interpolated values.\<close>

datatype conversionReason =
    NoQualifyingPurchase
  | PurchaseBeforeFirstVisit string string
  | ExcludedCategory string
  | ExcludedItem string
  | BelowMinimum rat
  | PurchaseRefunded string
  | ConvertedWith string rat string

record ConversionStatus =
  isConverted :: bool
  reason :: conversionReason
  firstPurchaseDate :: "string option"
  firstPurchaseItem :: "string option"
  purchaseValue :: "rat option"

type_synonym conversionMap = "string \<rightharpoonup> ConversionStatus"

definition initialConversionMap :: "NewRecord list \<Rightarrow> conversionMap" where
  "initialConversionMap clients =
     foldl (\<lambda>m client. m(Email client \<mapsto>
              \<lparr>isConverted = False, reason = NoQualifyingPurchase, firstPurchaseDate = None,
               firstPurchaseItem = None, purchaseValue = None\<rparr>)) Map.empty clients"

definition matchingClient :: "NewRecord list \<Rightarrow> rat SaleRecord \<Rightarrow> NewRecord option" where
  "matchingClient clients sale =
     find (\<lambda>client. Email client = Customer_email sale \<or>
                    Email client = Paying_Customer_email sale) clients"

definition isDateOnOrAfter :: "env \<Rightarrow> string \<Rightarrow> string \<Rightarrow> bool" where
  "isDateOnOrAfter e dateA dateB =
     (if dateA = [] \<or> dateB = [] then False
      else case (getTime e dateA, getTime e dateB) of
             (Some a, Some b) \<Rightarrow> a \<ge> b
           | _ \<Rightarrow> False)"

definition saleDateAfterVisit :: "env \<Rightarrow> NewRecord \<Rightarrow> rat SaleRecord \<Rightarrow> bool" where
  "saleDateAfterVisit e client sale = isDateOnOrAfter e (Date sale) (First_visit_at client)"

definition notExcludedCategory :: "rat SaleRecord \<Rightarrow> bool" where
  "notExcludedCategory sale =
     (let category = toLowerCase (Category sale)
      in \<not> js_includes category ''money-credits'' \<and> \<not> js_includes category ''retail'' \<and>
         \<not> js_includes category ''product'')"

definition not2For1Item :: "rat SaleRecord \<Rightarrow> bool" where
  "not2For1Item sale = (\<not> js_includes (toLowerCase (Item sale)) ''2 for 1'')"

definition hasMinimumSaleValue :: "rat SaleRecord \<Rightarrow> bool" where
  "hasMinimumSaleValue sale = (Sale_value sale \<ge> 1000)"

definition notRefunded :: "rat SaleRecord \<Rightarrow> bool" where
  "notRefunded sale = (Refunded sale \<noteq> ''YES'')"

definition conversionReason_of :: "env \<Rightarrow> NewRecord \<Rightarrow> rat SaleRecord \<Rightarrow> conversionReason" where
  "conversionReason_of e client sale =
     (if \<not> saleDateAfterVisit e client sale
        then PurchaseBeforeFirstVisit (Date sale) (First_visit_at client)
      else if \<not> notExcludedCategory sale then ExcludedCategory (Category sale)
      else if \<not> not2For1Item sale then ExcludedItem (Item sale)
      else if \<not> hasMinimumSaleValue sale then BelowMinimum (Sale_value sale)
      else if \<not> notRefunded sale then PurchaseRefunded (Item sale)
      else ConvertedWith (Item sale) (Sale_value sale) (Date sale))"

definition isConverted_sale :: "env \<Rightarrow> NewRecord \<Rightarrow> rat SaleRecord \<Rightarrow> bool" where
  "isConverted_sale e client sale =
     (saleDateAfterVisit e client sale \<and> notExcludedCategory sale \<and> not2For1Item sale \<and>
      hasMinimumSaleValue sale \<and> notRefunded sale)"

text \<open>
  The callback of \<^verbatim>\<open>cleanedSalesData.filter\<close>, which also writes \<^verbatim>\<open>clientConversionMap\<close>:
  the state is the list of sales kept so far and the map.
\<close>

definition saleStep ::
  "env \<Rightarrow> NewRecord list \<Rightarrow> rat SaleRecord list \<times> conversionMap \<Rightarrow> rat SaleRecord \<Rightarrow>
   rat SaleRecord list \<times> conversionMap" where
  "saleStep e clients st sale =
     (case matchingClient clients sale of
        None \<Rightarrow> st
      | Some client \<Rightarrow>
          (let clientEmail = Email client;
               converted = isConverted_sale e client sale;
               currentStatus = snd st clientEmail;
               m = (if converted \<and> \<not> (case currentStatus of Some s \<Rightarrow> isConverted s | None \<Rightarrow> False)
                    then (snd st)(clientEmail \<mapsto>
                           \<lparr>isConverted = True, reason = conversionReason_of e client sale,
                            firstPurchaseDate = Some (Date sale),
                            firstPurchaseItem = Some (Item sale),
                            purchaseValue = Some (Sale_value sale)\<rparr>)
                    else (case currentStatus of
                            Some s \<Rightarrow>
                              if \<not> converted \<and> \<not> isConverted s
                              then (snd st)(clientEmail \<mapsto> s\<lparr>reason := conversionReason_of e client sale\<rparr>)
                              else snd st
                          | None \<Rightarrow> snd st))
           in (if converted then fst st @ [sale] else fst st, m)))"

definition conversionScan ::
  "env \<Rightarrow> NewRecord list \<Rightarrow> rat SaleRecord list \<Rightarrow> rat SaleRecord list \<times> conversionMap" where
  "conversionScan e clients cleanedSales =
     foldl (saleStep e clients) ([], initialConversionMap clients) cleanedSales"

text \<open>The source's local \<^verbatim>\<open>convertedClients\<close>: the sales the filter keeps.\<close>

definition convertedSales :: "env \<Rightarrow> NewRecord list \<Rightarrow> rat SaleRecord list \<Rightarrow> rat SaleRecord list" where
  "convertedSales e clients cleanedSales = fst (conversionScan e clients cleanedSales)"

definition clientConversionMap :: "env \<Rightarrow> NewRecord list \<Rightarrow> rat SaleRecord list \<Rightarrow> conversionMap" where
  "clientConversionMap e clients cleanedSales = snd (conversionScan e clients cleanedSales)"

text \<open>\<^verbatim>\<open>sale['Customer email'] || sale['Paying Customer email'] || ''\<close>\<close>

definition saleEmail :: "rat SaleRecord \<Rightarrow> string" where
  "saleEmail sale = (if Customer_email sale \<noteq> [] then Customer_email sale else Paying_Customer_email sale)"

definition convertedClientEmails :: "rat SaleRecord list \<Rightarrow> string list" where
  "convertedClientEmails converted = uniq (map saleEmail converted)"

definition totalRevenue_of :: "rat SaleRecord list \<Rightarrow> rat" where
  "totalRevenue_of converted = foldl (\<lambda>sum sale. sum + Sale_value sale) 0 converted"

definition influencerConvertedCount :: "env \<Rightarrow> NewRecord list \<Rightarrow> rat SaleRecord list \<Rightarrow> int" where
  "influencerConvertedCount e clients converted =
     int (length (filter (\<lambda>sale. list_ex (\<lambda>client. Email client = saleEmail sale \<and>
            matchesPattern e (Membership_used client)
              ''sign-up|link|influencer|twain|ooo|lrs|x|p57|physique|complimentary'') clients)
          converted))"

definition referralConvertedCount :: "NewRecord list \<Rightarrow> rat SaleRecord list \<Rightarrow> int" where
  "referralConvertedCount clients converted =
     int (length (filter (\<lambda>sale. list_ex (\<lambda>client. Email client = saleEmail sale \<and>
            Membership_used client = ''Studio Complimentary Referral Class'') clients)
          converted))"

definition trialConvertedCount :: "env \<Rightarrow> NewRecord list \<Rightarrow> rat SaleRecord list \<Rightarrow> int" where
  "trialConvertedCount e clients converted =
     int (length (filter (\<lambda>sale. list_ex (\<lambda>client. Email client = saleEmail sale \<and>
            matchesPattern e (Membership_used client)
              ''Studio Open Barre Class|Newcomers 2 For 1'') clients)
          converted))"

paragraph \<open>Rates\<close>

text \<open>
  \<^verbatim>\<open>a / b\<close> on numbers: finite exactly when the divisor is not zero. The source writes
  every percentage as \<^verbatim>\<open>d > 0 ? (n / d) * 100 : 0\<close>; \<open>percentage\<close> is that expression.
\<close>

definition js_divide :: "rat \<Rightarrow> rat \<Rightarrow> rat option" where
  "js_divide a b = (if b = 0 then None else Some (a / b))"

definition percentage :: "int \<Rightarrow> int \<Rightarrow> rat option" where
  "percentage n d =
     (if d > 0 then map_option (\<lambda>q. q * 100) (js_divide (of_int n) (of_int d)) else Some 0)"

definition averageRevenue :: "rat \<Rightarrow> int \<Rightarrow> rat option" where
  "averageRevenue revenue n = (if n > 0 then js_divide revenue (of_int n) else Some 0)"

paragraph \<open>The row of a cohort\<close>

record ProcessedTeacherData =
  teacherName :: string
  location :: string
  period :: string
  newClients :: int
  trials :: int
  referrals :: int
  hosted :: int
  influencerSignups :: int
  others :: int
  retainedClients :: int
  retentionRate :: "rat option"
  convertedClients :: int
  conversionRate :: "rat option"
  totalRevenue :: rat
  averageRevenuePerClient :: "rat option"
  noShowRate :: "rat option"
  lateCancellationRate :: "rat option"
  firstTimeBuyerRate :: "rat option"
  influencerConversionRate :: "rat option"
  referralConversionRate :: "rat option"
  trialToMembershipConversion :: "rat option"
  totalVisits :: int
  cancellations :: int
  lateCancellations :: int
  noShows :: int
  totalClasses :: int
  uniqueClients :: int

text \<open>
  The body of the innermost loop after the test for an empty cohort: \<open>clients\<close> is
  \<^verbatim>\<open>teacherNewClients\<close>.
\<close>

definition cohortRow ::
  "env \<Rightarrow> string \<Rightarrow> string \<Rightarrow> string \<Rightarrow> NewRecord list \<Rightarrow> BookingRecord list \<Rightarrow>
   rat SaleRecord list \<Rightarrow> ProcessedTeacherData" where
  "cohortRow e teacher loc per clients cleanedBookings cleanedSales =
     (let bookings = teacherBookings e teacher loc per cleanedBookings;
          noShowsCount = int (length (filter (\<lambda>booking. No_Show booking = ''YES'') bookings));
          lateCancellationsCount =
            int (length (filter (\<lambda>booking. Late_Cancelled booking = ''YES'') bookings));
          newClientsCount = int (length clients);
          visits = returnVisits e clients cleanedBookings;
          retainedClientsCount = int (length (retainedClientEmails visits clients));
          converted = convertedSales e clients cleanedSales;
          convertedClientsCount = int (length (convertedClientEmails converted));
          revenue = totalRevenue_of converted
      in \<lparr>teacherName = teacher,
          location = loc,
          period = per,
          newClients = newClientsCount,
          trials = count_trials e clients,
          referrals = count_referrals clients,
          hosted = count_hosted e clients,
          influencerSignups = count_influencerSignups e clients,
          others = count_others e clients,
          retainedClients = retainedClientsCount,
          retentionRate = percentage retainedClientsCount newClientsCount,
          convertedClients = convertedClientsCount,
          conversionRate = percentage convertedClientsCount newClientsCount,
          totalRevenue = revenue,
          averageRevenuePerClient = averageRevenue revenue convertedClientsCount,
          noShowRate = percentage noShowsCount (int (length bookings)),
          lateCancellationRate = percentage lateCancellationsCount (int (length bookings)),
          firstTimeBuyerRate = percentage convertedClientsCount newClientsCount,
          influencerConversionRate =
            percentage (influencerConvertedCount e clients converted) (count_influencerSignups e clients),
          referralConversionRate =
            percentage (referralConvertedCount clients converted) (count_referrals clients),
          trialToMembershipConversion =
            percentage (trialConvertedCount e clients converted) (count_trials e clients),
          totalVisits =
            int (length (filter (\<lambda>booking. Cancelled booking = ''NO'' \<and>
                                   Late_Cancelled booking = ''NO'' \<and> No_Show booking = ''NO'') bookings)),
          cancellations = int (length (filter (\<lambda>booking. Cancelled booking = ''YES'') bookings)),
          lateCancellations = lateCancellationsCount,
          noShows = noShowsCount,
          totalClasses = int (length (uniq (map Class_Name bookings))),
          uniqueClients = int (length (uniq (map Customer_Email bookings)))\<rparr>)"

subsection \<open>The studio rollup\<close>

text \<open>
  \<^verbatim>\<open>studioData\<close> is an object used as a dictionary from location to row; it is an
  association list in insertion order. Keys that name an inherited property of
  \<^verbatim>\<open>Object.prototype\<close>, and the order in which \<^verbatim>\<open>Object.values\<close> lists integer-like
  keys, are outside the model.
\<close>

type_synonym studioData = "(string \<times> ProcessedTeacherData) list"

definition emptyStudio :: "string \<Rightarrow> string \<Rightarrow> ProcessedTeacherData" where
  "emptyStudio loc per =
     \<lparr>teacherName = ''All Teachers'', location = loc, period = per,
      newClients = 0, trials = 0, referrals = 0, hosted = 0, influencerSignups = 0, others = 0,
      retainedClients = 0, retentionRate = Some 0, convertedClients = 0, conversionRate = Some 0,
      totalRevenue = 0, averageRevenuePerClient = Some 0, noShowRate = Some 0,
      lateCancellationRate = Some 0, firstTimeBuyerRate = Some 0,
      influencerConversionRate = Some 0, referralConversionRate = Some 0,
      trialToMembershipConversion = Some 0,
      totalVisits = 0, cancellations = 0, lateCancellations = 0, noShows = 0, totalClasses = 0,
      uniqueClients = 0\<rparr>"

definition addToStudio :: "ProcessedTeacherData \<Rightarrow> ProcessedTeacherData \<Rightarrow> ProcessedTeacherData" where
  "addToStudio row studio =
     studio\<lparr>newClients := newClients studio + newClients row,
            trials := trials studio + trials row,
            referrals := referrals studio + referrals row,
            hosted := hosted studio + hosted row,
            influencerSignups := influencerSignups studio + influencerSignups row,
            others := others studio + others row,
            retainedClients := retainedClients studio + retainedClients row,
            convertedClients := convertedClients studio + convertedClients row,
            totalRevenue := totalRevenue studio + totalRevenue row,
            totalVisits := totalVisits studio + totalVisits row,
            cancellations := cancellations studio + cancellations row,
            lateCancellations := lateCancellations studio + lateCancellations row,
            noShows := noShows studio + noShows row,
            totalClasses := totalClasses studio + totalClasses row,
            uniqueClients := uniqueClients studio + uniqueClients row\<rparr>"

definition updateStudioData :: "ProcessedTeacherData \<Rightarrow> studioData \<Rightarrow> studioData" where
  "updateStudioData row studios =
     (let studio = (case map_of studios (location row) of
                      None \<Rightarrow> emptyStudio (location row) (period row)
                    | Some s \<Rightarrow> s)
      in AList.update (location row) (addToStudio row studio) studios)"

text \<open>One pass of the body of \<^verbatim>\<open>periods.forEach\<close>.\<close>

definition cohortStep ::
  "env \<Rightarrow> NewRecord list \<Rightarrow> BookingRecord list \<Rightarrow> rat SaleRecord list \<Rightarrow>
   ProcessedTeacherData list \<times> studioData \<Rightarrow> string \<times> string \<times> string \<Rightarrow>
   ProcessedTeacherData list \<times> studioData" where
  "cohortStep e enriched cleanedBookings cleanedSales st key =
     (case key of (teacher, loc, per) \<Rightarrow>
        (let clients = teacherNewClients e teacher loc per enriched
         in if clients = [] then st
            else (let row = cohortRow e teacher loc per clients cleanedBookings cleanedSales
                  in (fst st @ [row], updateStudioData row (snd st)))))"

text \<open>The three nested \<^verbatim>\<open>forEach\<close> loops visit the keys in this order.\<close>

definition cohortKeys :: "env \<Rightarrow> NewRecord list \<Rightarrow> BookingRecord list \<Rightarrow> (string \<times> string \<times> string) list" where
  "cohortKeys e enriched cleanedBookings =
     concat (map (\<lambda>teacher. concat (map (\<lambda>loc. map (\<lambda>per. (teacher, loc, per)) (periods_of e enriched))
                                       (locations_of enriched)))
                 (teachers_of cleanedBookings))"

definition runLoop ::
  "env \<Rightarrow> NewRecord list \<Rightarrow> BookingRecord list \<Rightarrow> rat SaleRecord list \<Rightarrow>
   ProcessedTeacherData list \<times> studioData" where
  "runLoop e enriched cleanedBookings cleanedSales =
     foldl (cohortStep e enriched cleanedBookings cleanedSales) ([], [])
       (cohortKeys e enriched cleanedBookings)"

text \<open>\<^verbatim>\<open>Object.values(studioData).forEach\<close>: the rates a studio row gets.\<close>

definition studioRates :: "ProcessedTeacherData \<Rightarrow> ProcessedTeacherData" where
  "studioRates studio =
     studio\<lparr>retentionRate := percentage (retainedClients studio) (newClients studio),
            conversionRate := percentage (convertedClients studio) (newClients studio),
            averageRevenuePerClient := averageRevenue (totalRevenue studio) (convertedClients studio)\<rparr>"

subsection \<open>The whole run\<close>

definition loopResult ::
  "env \<Rightarrow> NewRecord list \<Rightarrow> BookingRecord list \<Rightarrow> raw_number SaleRecord list option \<Rightarrow>
   ProcessedTeacherData list \<times> studioData" where
  "loopResult e newData bookingsData salesData =
     (let cleanedBookings = cleanedBookingsData e bookingsData
      in runLoop e (enrichedNewData (cleanedNewData e newData) cleanedBookings) cleanedBookings
           (cleanedSalesData e salesData))"

text \<open>The rows pushed inside the loops, one per non-empty cohort.\<close>

definition cohortRows ::
  "env \<Rightarrow> NewRecord list \<Rightarrow> BookingRecord list \<Rightarrow> raw_number SaleRecord list option \<Rightarrow>
   ProcessedTeacherData list" where
  "cohortRows e newData bookingsData salesData = fst (loopResult e newData bookingsData salesData)"

text \<open>The rows pushed after the loops, one per entry of \<^verbatim>\<open>studioData\<close>.\<close>

definition studioRows ::
  "env \<Rightarrow> NewRecord list \<Rightarrow> BookingRecord list \<Rightarrow> raw_number SaleRecord list option \<Rightarrow>
   ProcessedTeacherData list" where
  "studioRows e newData bookingsData salesData =
     map (\<lambda>entry. studioRates (snd entry)) (snd (loopResult e newData bookingsData salesData))"

text \<open>The field \<^verbatim>\<open>processedData\<close> of the value \<^verbatim>\<open>processData\<close> resolves to.\<close>

definition processData ::
  "env \<Rightarrow> NewRecord list \<Rightarrow> BookingRecord list \<Rightarrow> raw_number SaleRecord list option \<Rightarrow>
   ProcessedTeacherData list" where
  "processData e newData bookingsData salesData =
     cohortRows e newData bookingsData salesData @ studioRows e newData bookingsData salesData"

subsection \<open>An environment for concrete runs\<close>

text \<open>
  The module \<^verbatim>\<open>csvParser\<close> lies outside the sources modelled here. The definitions of this
  subsection give one environment that fits the description of the collaborator, with dates in the
  canonical form \<^verbatim>\<open>YYYY-MM-DD\<close>; they are used only to run the pipeline on concrete
  inputs.
\<close>

definition digitValue :: "char \<Rightarrow> nat option" where
  "digitValue c = map_of (zip ''0123456789'' [0, 1, 2, 3, 4, 5, 6, 7, 8, 9]) c"

fun decimal :: "nat \<Rightarrow> string \<Rightarrow> nat option" where
  "decimal acc [] = Some acc"
| "decimal acc (c # cs) = (case digitValue c of None \<Rightarrow> None | Some d \<Rightarrow> decimal (acc * 10 + d) cs)"

fun splitBar :: "string \<Rightarrow> string \<Rightarrow> string list" where
  "splitBar cur [] = [cur]"
| "splitBar cur (c # cs) = (if c = CHR ''|'' then cur # splitBar [] cs else splitBar (cur @ [c]) cs)"

text \<open>
  Modelled from the spec: \<^verbatim>\<open>matchesAnyKeyword(text, alternatives)\<close>, a case-insensitive
  substring match against a pipe-delimited list of alternatives (\<^verbatim>\<open>matchesPattern\<close> of
  \<^verbatim>\<open>csvParser\<close>).
\<close>

definition spec_matchesPattern :: "string \<Rightarrow> string \<Rightarrow> bool" where
  "spec_matchesPattern text pattern =
     list_ex (js_includes (toLowerCase text)) (map toLowerCase (splitBar [] pattern))"

text \<open>
  Modelled from the spec: the canonical comparable date. A date \<^verbatim>\<open>YYYY-MM-DD\<close> is
  numbered \<open>10000 * year + 100 * month + day\<close>, which orders dates as the calendar does;
  any other string has no number.
\<close>

definition dayNumber :: "string \<Rightarrow> int option" where
  "dayNumber s =
     (if length s = 10 \<and> s ! 4 = CHR ''-'' \<and> s ! 7 = CHR ''-''
      then (case (decimal 0 (take 4 s), decimal 0 (take 2 (drop 5 s)), decimal 0 (drop 8 s)) of
              (Some y, Some m, Some d) \<Rightarrow> Some (int (y * 10000 + m * 100 + d))
            | _ \<Rightarrow> None)
      else None)"

text \<open>
  Modelled from the spec: \<^verbatim>\<open>formatDate(raw)\<close>, the canonical date of a raw field
  (\<^verbatim>\<open>formatDateString\<close> of \<^verbatim>\<open>csvParser\<close>): a date already canonical is kept, anything else
  degrades to the empty string.
\<close>

definition spec_formatDateString :: "string \<Rightarrow> string" where
  "spec_formatDateString raw = (if dayNumber raw = None then [] else raw)"

text \<open>
  Modelled from the spec: \<^verbatim>\<open>isStrictlyAfter(a, b)\<close> on canonical dates (\<^verbatim>\<open>isDateAfter\<close> of
  \<^verbatim>\<open>csvParser\<close>).
\<close>

definition spec_isDateAfter :: "string \<Rightarrow> string \<Rightarrow> bool" where
  "spec_isDateAfter a b =
     (case (dayNumber a, dayNumber b) of (Some x, Some y) \<Rightarrow> x > y | _ \<Rightarrow> False)"

text \<open>
  Modelled from the spec: \<^verbatim>\<open>periodKeyOf(date)\<close>, the \<^verbatim>\<open>"Month Year"\<close> string of a canonical
  date (\<^verbatim>\<open>getMonthYearFromDate\<close> of \<^verbatim>\<open>csvParser\<close>); the empty string for anything else.
\<close>

definition spec_getMonthYearFromDate :: "string \<Rightarrow> string" where
  "spec_getMonthYearFromDate date =
     (case (dayNumber date,
            map_of [(''01'', ''January''), (''02'', ''February''), (''03'', ''March''),
                    (''04'', ''April''), (''05'', ''May''), (''06'', ''June''),
                    (''07'', ''July''), (''08'', ''August''), (''09'', ''September''),
                    (''10'', ''October''), (''11'', ''November''), (''12'', ''December'')]
              (take 2 (drop 5 date))) of
        (Some n, Some month) \<Rightarrow> month @ '' '' @ take 4 date
      | _ \<Rightarrow> [])"

text \<open>
  Modelled from the spec: \<^verbatim>\<open>cleanLabel(text)\<close>, the normalized label
  (\<^verbatim>\<open>cleanFirstVisitValue\<close> of \<^verbatim>\<open>csvParser\<close>): blanks at both ends are dropped.
\<close>

definition spec_cleanFirstVisitValue :: "string \<Rightarrow> string" where
  "spec_cleanFirstVisitValue label =
     rev (dropWhile (\<lambda>c. c = CHR '' '') (rev (dropWhile (\<lambda>c. c = CHR '' '') label)))"

text \<open>
  Modelled from the spec: the comparable time of a canonical date, standing for
  \<^verbatim>\<open>new Date(s).getTime()\<close>, of which the pipeline uses only the order.
\<close>

definition spec_getTime :: "string \<Rightarrow> int option" where
  "spec_getTime s = dayNumber s"

text \<open>
  Modelled from the spec: the coercion of a currency-like string, already stripped to
  digits, points and minus signs, to a number (\<^verbatim>\<open>parseFloat\<close>): an optional minus sign,
  digits, and an optional point with digits; \<open>None\<close> when no digit is found.
\<close>

definition spec_parseFloat :: "string \<Rightarrow> rat option" where
  "spec_parseFloat s =
     (let negative = (s \<noteq> [] \<and> hd s = CHR ''-'');
          body = (if negative then tl s else s);
          whole = takeWhile (\<lambda>c. digitValue c \<noteq> None) body;
          rest = dropWhile (\<lambda>c. digitValue c \<noteq> None) body;
          fraction = (case rest of
                        c # cs \<Rightarrow> if c = CHR ''.'' then takeWhile (\<lambda>c. digitValue c \<noteq> None) cs else []
                      | [] \<Rightarrow> [])
      in if whole = [] \<and> fraction = [] then None
         else (case (decimal 0 whole, decimal 0 fraction) of
                 (Some w, Some f) \<Rightarrow>
                   Some ((if negative then - 1 else 1) *
                         (of_nat w + of_nat f / 10 ^ length fraction))
               | _ \<Rightarrow> None))"

definition specEnv :: env where
  "specEnv =
     \<lparr>formatDateString = spec_formatDateString,
      cleanFirstVisitValue = spec_cleanFirstVisitValue,
      getMonthYearFromDate = spec_getMonthYearFromDate,
      matchesPattern = spec_matchesPattern,
      isDateAfter = spec_isDateAfter,
      getTime = spec_getTime,
      parseFloat = spec_parseFloat\<rparr>"

subsection \<open>Notions used in the statements\<close>

text \<open>
  A sale qualifies when the filter callback finds a matching client and computes
  \<^verbatim>\<open>isConverted\<close> as true; it qualifies for an e-mail address when that client has the
  address. \<open>attribution\<close> is the map entry the callback writes for a qualifying sale, and
  \<open>unconverted\<close> an entry of a client not converted so far.
\<close>

definition qualifies :: "env \<Rightarrow> NewRecord list \<Rightarrow> rat SaleRecord \<Rightarrow> bool" where
  "qualifies e clients sale =
     (case matchingClient clients sale of
        None \<Rightarrow> False
      | Some client \<Rightarrow> isConverted_sale e client sale)"

definition qualifiesFor :: "env \<Rightarrow> NewRecord list \<Rightarrow> string \<Rightarrow> rat SaleRecord \<Rightarrow> bool" where
  "qualifiesFor e clients email sale =
     (case matchingClient clients sale of
        None \<Rightarrow> False
      | Some client \<Rightarrow> Email client = email \<and> isConverted_sale e client sale)"

definition attribution :: "rat SaleRecord \<Rightarrow> ConversionStatus" where
  "attribution sale =
     \<lparr>isConverted = True, reason = ConvertedWith (Item sale) (Sale_value sale) (Date sale),
      firstPurchaseDate = Some (Date sale), firstPurchaseItem = Some (Item sale),
      purchaseValue = Some (Sale_value sale)\<rparr>"

definition unconverted :: "conversionReason \<Rightarrow> ConversionStatus" where
  "unconverted r = \<lparr>isConverted = False, reason = r, firstPurchaseDate = None,
               firstPurchaseItem = None, purchaseValue = None\<rparr>"


text \<open>
  The rows of one location, and the rollup the loop holds for it: the fold of
  \<open>addToStudio\<close> over these rows, started from the empty studio that carries the period
  of the first of them.
\<close>

definition rowsAt :: "string \<Rightarrow> ProcessedTeacherData list \<Rightarrow> ProcessedTeacherData list" where
  "rowsAt loc rows = filter (\<lambda>row. location row = loc) rows"

definition rollup :: "string \<Rightarrow> ProcessedTeacherData list \<Rightarrow> ProcessedTeacherData option" where
  "rollup loc rows =
     (case rowsAt loc rows of
        [] \<Rightarrow> None
      | r # rs \<Rightarrow> Some (foldl (\<lambda>studio row. addToStudio row studio) (emptyStudio loc (period r)) (r # rs)))"

definition loopInvariant :: "ProcessedTeacherData list \<times> studioData \<Rightarrow> bool" where
  "loopInvariant st \<longleftrightarrow> distinct (map fst (snd st)) \<and> map_of (snd st) = (\<lambda>loc. rollup loc (fst st))"


text \<open>What identifies a row of the result and says how many clients it covers.\<close>

definition rowKey :: "ProcessedTeacherData \<Rightarrow> string \<times> string \<times> string \<times> int" where
  "rowKey row = (teacherName row, location row, period row, newClients row)"

subsection \<open>Example data\<close>

text \<open>
  A small run, used for the concrete instances below: two clients at one studio who first
  visit in different months with teacher T1; the first returns once, at another studio
  with teacher T2, and buys a class pack.
\<close>

definition mkNew :: "string \<Rightarrow> string \<Rightarrow> string \<Rightarrow> string \<Rightarrow> string \<Rightarrow> string option \<Rightarrow> NewRecord" where
  "mkNew email membership visitAt visit loc teacher =
     \<lparr>Email = email, Membership_used = membership, First_visit_at = visitAt, First_visit = visit,
      First_visit_location = loc, New_Teacher = teacher\<rparr>"

definition mkBooking :: "string \<Rightarrow> string \<Rightarrow> string \<Rightarrow> string \<Rightarrow> string \<Rightarrow> BookingRecord" where
  "mkBooking email className classDate loc teacher =
     \<lparr>Class_Name = className, Class_Date = classDate, Location = loc, Teacher = teacher,
      Customer_Email = email, Cancelled = ''NO'', Late_Cancelled = ''NO'', No_Show = ''NO''\<rparr>"

definition mkSale :: "string \<Rightarrow> string \<Rightarrow> string \<Rightarrow> string \<Rightarrow> string \<Rightarrow> 'v \<Rightarrow> 'v SaleRecord" where
  "mkSale customer payer category item date v =
     \<lparr>Category = category, Item = item, Date = date, Sale_value = v, Refunded = ''NO'',
      Paying_Customer_email = payer, Customer_email = customer\<rparr>"

definition exNew :: "NewRecord list" where
  "exNew = [mkNew ''a@x.com'' ''Studio Complimentary Referral Class'' ''2024-01-05'' ''Trial'' ''Studio A'' None,
            mkNew ''b@x.com'' ''Class Pack'' ''2024-02-05'' ''Trial'' ''Studio A'' None]"

definition exBookings :: "BookingRecord list" where
  "exBookings = [mkBooking ''a@x.com'' ''Trial'' ''2024-01-05'' ''Studio A'' ''T1'',
                 mkBooking ''b@x.com'' ''Trial'' ''2024-02-05'' ''Studio A'' ''T1'',
                 mkBooking ''a@x.com'' ''Barre'' ''2024-02-12'' ''Studio B'' ''T2'']"

definition exSales :: "raw_number SaleRecord list" where
  "exSales = [mkSale ''a@x.com'' [] ''Membership'' ''10-Class Pack'' ''2024-01-20'' (Num 1200)]"

definition exEnriched :: "NewRecord list" where
  "exEnriched = [mkNew ''a@x.com'' ''Studio Complimentary Referral Class'' ''2024-01-05'' ''Trial'' ''Studio A'' (Some ''T1''),
            mkNew ''b@x.com'' ''Class Pack'' ''2024-02-05'' ''Trial'' ''Studio A'' (Some ''T1'')]"

definition exCleanedSales :: "rat SaleRecord list" where
  "exCleanedSales = [mkSale ''a@x.com'' [] ''Membership'' ''10-Class Pack'' ''2024-01-20'' 1200]"

text \<open>The rows this run produces: the two cohorts and the studio rollup.\<close>

definition exRow1 :: ProcessedTeacherData where
  "exRow1 =
   \<lparr>teacherName = ''T1'', location = ''Studio A'', period = ''January 2024'',
    newClients = 1, trials = 0, referrals = 1, hosted = 0, influencerSignups = 1, others = - 1,
    retainedClients = 1, retentionRate = Some 100, convertedClients = 1, conversionRate = Some 100,
    totalRevenue = 1200, averageRevenuePerClient = Some 1200, noShowRate = Some 0,
    lateCancellationRate = Some 0, firstTimeBuyerRate = Some 100,
    influencerConversionRate = Some 100, referralConversionRate = Some 100,
    trialToMembershipConversion = Some 0,
    totalVisits = 1, cancellations = 0, lateCancellations = 0, noShows = 0, totalClasses = 1,
    uniqueClients = 1\<rparr>"

definition exRow2 :: ProcessedTeacherData where
  "exRow2 =
   \<lparr>teacherName = ''T1'', location = ''Studio A'', period = ''February 2024'',
    newClients = 1, trials = 0, referrals = 0, hosted = 0, influencerSignups = 0, others = 1,
    retainedClients = 0, retentionRate = Some 0, convertedClients = 0, conversionRate = Some 0,
    totalRevenue = 0, averageRevenuePerClient = Some 0, noShowRate = Some 0,
    lateCancellationRate = Some 0, firstTimeBuyerRate = Some 0,
    influencerConversionRate = Some 0, referralConversionRate = Some 0,
    trialToMembershipConversion = Some 0,
    totalVisits = 1, cancellations = 0, lateCancellations = 0, noShows = 0, totalClasses = 1,
    uniqueClients = 1\<rparr>"

definition exStudio :: ProcessedTeacherData where
  "exStudio =
   \<lparr>teacherName = ''All Teachers'', location = ''Studio A'', period = ''January 2024'',
    newClients = 2, trials = 0, referrals = 1, hosted = 0, influencerSignups = 1, others = 0,
    retainedClients = 1, retentionRate = Some 50, convertedClients = 1, conversionRate = Some 50,
    totalRevenue = 1200, averageRevenuePerClient = Some 1200, noShowRate = Some 0,
    lateCancellationRate = Some 0, firstTimeBuyerRate = Some 0,
    influencerConversionRate = Some 0, referralConversionRate = Some 0,
    trialToMembershipConversion = Some 0,
    totalVisits = 2, cancellations = 0, lateCancellations = 0, noShows = 0, totalClasses = 2,
    uniqueClients = 2\<rparr>"


text \<open>
  Single records for the instances of the claims: the first client of the run, a client
  whose first class is a 2-for-1 offer, the first and the return visit of the first
  client, and sales that differ in category, value or e-mail fields.
\<close>

definition exClientA :: NewRecord where
  "exClientA = mkNew ''a@x.com'' ''Studio Complimentary Referral Class'' ''2024-01-05'' ''Trial''
                 ''Studio A'' (Some ''T1'')"

definition exClient2For1 :: NewRecord where
  "exClient2For1 = mkNew ''a@x.com'' ''Class Pack'' ''2024-01-05'' ''2 For 1 Intro'' ''Studio A'' (Some ''T1'')"

definition exFirstVisit :: BookingRecord where
  "exFirstVisit = mkBooking ''a@x.com'' ''Trial'' ''2024-01-05'' ''Studio A'' ''T1''"

definition exReturnVisit :: BookingRecord where
  "exReturnVisit = mkBooking ''a@x.com'' ''Barre'' ''2024-02-12'' ''Studio B'' ''T2''"

definition exCreditSale :: "rat SaleRecord" where
  "exCreditSale = mkSale ''a@x.com'' [] ''Money-Credit'' ''10-Class Pack'' ''2024-01-20'' 1200"

definition exSmallSale :: "rat SaleRecord" where
  "exSmallSale = mkSale ''a@x.com'' [] ''Membership'' ''10-Class Pack'' ''2024-01-20'' 500"

definition exFirstSale :: "rat SaleRecord" where
  "exFirstSale = mkSale ''a@x.com'' [] ''Membership'' ''10-Class Pack'' ''2024-01-20'' 1200"

definition exSecondSale :: "rat SaleRecord" where
  "exSecondSale = mkSale ''a@x.com'' [] ''Membership'' ''10-Class Pack'' ''2024-01-20'' 1500"

definition exPayerSale1 :: "rat SaleRecord" where
  "exPayerSale1 = mkSale ''z@x.com'' ''a@x.com'' ''Membership'' ''10-Class Pack'' ''2024-01-20'' 1200"

definition exPayerSale2 :: "rat SaleRecord" where
  "exPayerSale2 = mkSale ''y@x.com'' ''a@x.com'' ''Membership'' ''10-Class Pack'' ''2024-01-20'' 1200"

definition exPayerOnlySale :: "rat SaleRecord" where
  "exPayerOnlySale = mkSale [] ''a@x.com'' ''Membership'' ''10-Class Pack'' ''2024-01-20'' 1200"


section \<open>Properties\<close>

subsection \<open>Helpers\<close>

lemma set_uniq [simp]: "set (uniq xs) = set xs"
  by (simp add: uniq_def)

lemma distinct_uniq [simp]: "distinct (uniq xs)"
  by (simp add: uniq_def)

lemma length_uniq: "length (uniq xs) = card (set xs)"
  using distinct_card [of "uniq xs"] by simp

lemma startsWith_iff: "startsWith s sub \<longleftrightarrow> (\<exists>b. s = sub @ b)"
  by (induction s sub rule: startsWith.induct) auto

lemma js_includes_iff: "js_includes s sub \<longleftrightarrow> (\<exists>a b. s = a @ sub @ b)"
proof (induction s)
  case Nil
  then show ?case by auto
next
  case (Cons c cs)
  show ?case
  proof
    assume "js_includes (c # cs) sub"
    then consider "startsWith (c # cs) sub" | "js_includes cs sub" by auto
    then show "\<exists>a b. c # cs = a @ sub @ b"
    proof cases
      case 1
      then obtain b where "c # cs = sub @ b" by (auto simp: startsWith_iff)
      then have "c # cs = [] @ sub @ b" by simp
      then show ?thesis by blast
    next
      case 2
      then obtain a b where "cs = a @ sub @ b" using Cons.IH by blast
      then have "c # cs = (c # a) @ sub @ b" by simp
      then show ?thesis by blast
    qed
  next
    assume "\<exists>a b. c # cs = a @ sub @ b"
    then obtain a b where ab: "c # cs = a @ sub @ b" by blast
    show "js_includes (c # cs) sub"
    proof (cases a)
      case Nil
      with ab have "startsWith (c # cs) sub" by (auto simp: startsWith_iff)
      then show ?thesis by simp
    next
      case (Cons a0 as)
      with ab have "cs = as @ sub @ b" by simp
      then have "js_includes cs sub" using Cons.IH by blast
      then show ?thesis by simp
    qed
  qed
qed

lemma toLowerCase_letters:
  "toLowerCase ''ABCDEFGHIJKLMNOPQRSTUVWXYZ'' = ''abcdefghijklmnopqrstuvwxyz''"
  "toLowerCase ''az 09-@[`{'' = ''az 09-@[`{''"
  by (simp_all add: toLowerCase_def)

lemma retained_foldl:
  "foldl (\<lambda>emails client. if isRetained visits client then emails @ [Email client] else emails) acc clients
   = acc @ map Email (filter (isRetained visits) clients)"
  by (induction clients arbitrary: acc) auto

lemma retainedClientEmails_eq:
  "retainedClientEmails visits clients = map Email (filter (isRetained visits) clients)"
  by (simp add: retainedClientEmails_def retained_foldl)

lemma initial_foldl:
  "foldl (\<lambda>m client. m(Email client \<mapsto> v)) m0 clients email =
     (if email \<in> Email ` set clients then Some v else m0 email)"
  by (induction clients arbitrary: m0) auto

lemma initialConversionMap_apply:
  "initialConversionMap clients email =
     (if email \<in> Email ` set clients
      then Some \<lparr>isConverted = False, reason = NoQualifyingPurchase, firstPurchaseDate = None,
                 firstPurchaseItem = None, purchaseValue = None\<rparr>
      else None)"
  by (simp add: initialConversionMap_def initial_foldl)

lemma matchingClient_member:
  "matchingClient clients sale = Some client \<Longrightarrow> client \<in> set clients"
  by (auto simp: matchingClient_def find_Some_iff)

lemma conversionScan_snoc:
  "conversionScan e clients (sales @ [sale]) = saleStep e clients (conversionScan e clients sales) sale"
  by (simp add: conversionScan_def)

lemma conversionScan_Nil:
  "conversionScan e clients [] = ([], initialConversionMap clients)"
  by (simp add: conversionScan_def)

lemma convertedSales_eq:
  "convertedSales e clients sales = filter (qualifies e clients) sales"
proof (induction sales rule: rev_induct)
  case Nil
  then show ?case by (simp add: convertedSales_def conversionScan_Nil)
next
  case (snoc sale sales)
  then show ?case
    by (simp add: convertedSales_def conversionScan_snoc saleStep_def qualifies_def Let_def
             split: option.splits)
qed

lemma reason_converted:
  "isConverted_sale e client sale \<Longrightarrow>
   conversionReason_of e client sale = ConvertedWith (Item sale) (Sale_value sale) (Date sale)"
  by (simp add: isConverted_sale_def conversionReason_of_def)

text \<open>The map after the scan, for one e-mail address.\<close>

lemma clientConversionMap_cases:
  "(email \<notin> Email ` set clients \<longrightarrow> clientConversionMap e clients sales email = None) \<and>
   (email \<in> Email ` set clients \<longrightarrow>
      (case filter (qualifiesFor e clients email) sales of
         [] \<Rightarrow> (\<exists>r. clientConversionMap e clients sales email = Some (unconverted r))
       | q # qs \<Rightarrow> clientConversionMap e clients sales email = Some (attribution q)))"
proof (induction sales rule: rev_induct)
  case Nil
  then show ?case
    by (simp add: clientConversionMap_def conversionScan_Nil initialConversionMap_apply unconverted_def)
next
  case (snoc sale sales)
  show ?case
  proof (cases "matchingClient clients sale")
    case None
    then have eq1: "clientConversionMap e clients (sales @ [sale]) email = clientConversionMap e clients sales email"
      by (simp add: clientConversionMap_def conversionScan_snoc saleStep_def)
    from None have eq2: "filter (qualifiesFor e clients email) (sales @ [sale]) =
        filter (qualifiesFor e clients email) sales"
      by (simp add: qualifiesFor_def)
    show ?thesis unfolding eq1 eq2 by (rule snoc.IH)
  next
    case (Some client)
    then have mem: "Email client \<in> Email ` set clients"
      using matchingClient_member by blast
    show ?thesis
    proof (cases "Email client = email")
      case False
      with Some have eq1: "clientConversionMap e clients (sales @ [sale]) email = clientConversionMap e clients sales email"
        by (auto simp add: clientConversionMap_def conversionScan_snoc saleStep_def Let_def split: option.splits)
      from Some False have eq2: "filter (qualifiesFor e clients email) (sales @ [sale]) =
          filter (qualifiesFor e clients email) sales"
        by (simp add: qualifiesFor_def)
      show ?thesis unfolding eq1 eq2 by (rule snoc.IH)
    next
      case True
      show ?thesis
      proof (cases "filter (qualifiesFor e clients email) sales")
        case Nil
        with snoc.IH mem True obtain r where r: "clientConversionMap e clients sales email =
           Some (unconverted r)" by auto
        show ?thesis
        proof (cases "isConverted_sale e client sale")
          case c: True
          with Some True Nil have eq2: "filter (qualifiesFor e clients email) (sales @ [sale]) = [sale]"
            by (simp add: qualifiesFor_def)
          from Some True c r have eq1: "clientConversionMap e clients (sales @ [sale]) email = Some (attribution sale)"
            by (simp add: clientConversionMap_def conversionScan_snoc saleStep_def Let_def attribution_def reason_converted unconverted_def)
          show ?thesis unfolding eq1 eq2 using mem True by simp
        next
          case c: False
          with Some True Nil have eq2: "filter (qualifiesFor e clients email) (sales @ [sale]) = []"
            by (simp add: qualifiesFor_def)
          from Some True c r have eq1: "clientConversionMap e clients (sales @ [sale]) email =
             Some (unconverted (conversionReason_of e client sale))"
            by (simp add: clientConversionMap_def conversionScan_snoc saleStep_def Let_def unconverted_def)
          show ?thesis unfolding eq1 eq2 using mem True by auto
        qed
      next
        case (Cons q qs)
        with snoc.IH mem True have old: "clientConversionMap e clients sales email = Some (attribution q)" by simp
        from Cons have eq2: "filter (qualifiesFor e clients email) (sales @ [sale]) =
            q # qs @ filter (qualifiesFor e clients email) [sale]" by simp
        from Some True old have eq1: "clientConversionMap e clients (sales @ [sale]) email = Some (attribution q)"
          by (simp add: clientConversionMap_def conversionScan_snoc saleStep_def Let_def attribution_def)
        show ?thesis unfolding eq1 eq2 using mem True by simp
      qed
    qed
  qed
qed

lemma totalRevenue_foldl:
  "foldl (\<lambda>sum sale. sum + Sale_value sale) acc sales = acc + sum_list (map Sale_value sales)"
  by (induction sales arbitrary: acc) (auto simp: add.assoc)

lemma totalRevenue_of_eq: "totalRevenue_of sales = sum_list (map Sale_value sales)"
  by (simp add: totalRevenue_of_def totalRevenue_foldl)


lemma rollup_snoc:
  "rollup loc (rows @ [row]) =
     (if location row = loc
      then Some (addToStudio row (case rollup loc rows of None \<Rightarrow> emptyStudio loc (period row) | Some s \<Rightarrow> s))
      else rollup loc rows)"
  by (simp add: rollup_def rowsAt_def split: list.splits)

lemma loopInvariant_init: "loopInvariant ([], [])"
  by (simp add: loopInvariant_def rollup_def rowsAt_def fun_eq_iff)

lemma loopInvariant_push:
  assumes "loopInvariant st"
  shows "loopInvariant (fst st @ [row], updateStudioData row (snd st))"
proof -
  from assms have d: "distinct (map fst (snd st))" and m: "map_of (snd st) = (\<lambda>loc. rollup loc (fst st))"
    by (simp_all add: loopInvariant_def)
  have "distinct (map fst (updateStudioData row (snd st)))"
    using d by (simp add: updateStudioData_def Let_def distinct_update)
  moreover have "map_of (updateStudioData row (snd st)) = (\<lambda>loc. rollup loc (fst st @ [row]))"
    by (auto simp add: updateStudioData_def Let_def update_conv' m rollup_snoc fun_eq_iff)
  ultimately show ?thesis by (simp add: loopInvariant_def)
qed

lemma cohortStep_cases:
  "cohortStep e enriched cb cs st key = st \<or>
   (\<exists>teacher loc per clients. clients \<noteq> [] \<and>
      cohortStep e enriched cb cs st key =
        (fst st @ [cohortRow e teacher loc per clients cb cs],
         updateStudioData (cohortRow e teacher loc per clients cb cs) (snd st)))"
  by (cases key) (auto simp add: cohortStep_def Let_def)

lemma loopInvariant_step: "loopInvariant st \<Longrightarrow> loopInvariant (cohortStep e enriched cb cs st key)"
  using cohortStep_cases [of e enriched cb cs st key] loopInvariant_push [of st] by auto

lemma loopInvariant_foldl:
  "loopInvariant st \<Longrightarrow> loopInvariant (foldl (cohortStep e enriched cb cs) st keys)"
  by (induction keys arbitrary: st) (simp_all add: loopInvariant_step)

lemma loopInvariant_runLoop: "loopInvariant (runLoop e enriched cb cs)"
  by (simp add: runLoop_def loopInvariant_foldl loopInvariant_init)

text \<open>Every row of the loop is the row of a non-empty cohort.\<close>

lemma rows_step:
  assumes "\<forall>row \<in> set (fst st). Q row"
    and "\<And>teacher loc per clients. clients \<noteq> [] \<Longrightarrow> Q (cohortRow e teacher loc per clients cb cs)"
  shows "\<forall>row \<in> set (fst (cohortStep e enriched cb cs st key)). Q row"
  using cohortStep_cases [of e enriched cb cs st key] assms by auto

lemma rows_foldl:
  assumes "\<forall>row \<in> set (fst st). Q row"
    and "\<And>teacher loc per clients. clients \<noteq> [] \<Longrightarrow> Q (cohortRow e teacher loc per clients cb cs)"
  shows "\<forall>row \<in> set (fst (foldl (cohortStep e enriched cb cs) st keys)). Q row"
  using assms(1)
proof (induction keys arbitrary: st)
  case Nil
  then show ?case by simp
next
  case (Cons key keys)
  have "\<forall>row \<in> set (fst (cohortStep e enriched cb cs st key)). Q row"
    using rows_step [OF Cons.prems assms(2)] by blast
  then show ?case using Cons.IH by simp
qed

lemma rows_runLoop:
  assumes "\<And>teacher loc per clients. clients \<noteq> [] \<Longrightarrow> Q (cohortRow e teacher loc per clients cb cs)"
  shows "\<forall>row \<in> set (fst (runLoop e enriched cb cs)). Q row"
  unfolding runLoop_def using rows_foldl [of "([], [])" Q e cb cs] assms by simp

text \<open>What folding \<open>addToStudio\<close> over rows does to each field.\<close>

lemma fold_add_keys:
  "teacherName (foldl (\<lambda>studio row. addToStudio row studio) s rows) = teacherName s \<and>
   location (foldl (\<lambda>studio row. addToStudio row studio) s rows) = location s \<and>
   period (foldl (\<lambda>studio row. addToStudio row studio) s rows) = period s"
  by (induction rows arbitrary: s) (simp_all add: addToStudio_def)

lemma fold_add_rates:
  "noShowRate (foldl (\<lambda>studio row. addToStudio row studio) s rows) = noShowRate s \<and>
   lateCancellationRate (foldl (\<lambda>studio row. addToStudio row studio) s rows) = lateCancellationRate s \<and>
   firstTimeBuyerRate (foldl (\<lambda>studio row. addToStudio row studio) s rows) = firstTimeBuyerRate s \<and>
   influencerConversionRate (foldl (\<lambda>studio row. addToStudio row studio) s rows) = influencerConversionRate s \<and>
   referralConversionRate (foldl (\<lambda>studio row. addToStudio row studio) s rows) = referralConversionRate s \<and>
   trialToMembershipConversion (foldl (\<lambda>studio row. addToStudio row studio) s rows) = trialToMembershipConversion s"
  by (induction rows arbitrary: s) (simp_all add: addToStudio_def)

lemma fold_add_counts:
  "newClients (foldl (\<lambda>studio row. addToStudio row studio) s rows) = newClients s + sum_list (map newClients rows) \<and>
   trials (foldl (\<lambda>studio row. addToStudio row studio) s rows) = trials s + sum_list (map trials rows) \<and>
   referrals (foldl (\<lambda>studio row. addToStudio row studio) s rows) = referrals s + sum_list (map referrals rows) \<and>
   hosted (foldl (\<lambda>studio row. addToStudio row studio) s rows) = hosted s + sum_list (map hosted rows) \<and>
   influencerSignups (foldl (\<lambda>studio row. addToStudio row studio) s rows) =
     influencerSignups s + sum_list (map influencerSignups rows) \<and>
   others (foldl (\<lambda>studio row. addToStudio row studio) s rows) = others s + sum_list (map others rows) \<and>
   retainedClients (foldl (\<lambda>studio row. addToStudio row studio) s rows) =
     retainedClients s + sum_list (map retainedClients rows) \<and>
   convertedClients (foldl (\<lambda>studio row. addToStudio row studio) s rows) =
     convertedClients s + sum_list (map convertedClients rows) \<and>
   totalRevenue (foldl (\<lambda>studio row. addToStudio row studio) s rows) =
     totalRevenue s + sum_list (map totalRevenue rows)"
  by (induction rows arbitrary: s) (simp_all add: addToStudio_def)

lemma fold_add_attendance:
  "totalVisits (foldl (\<lambda>studio row. addToStudio row studio) s rows) = totalVisits s + sum_list (map totalVisits rows) \<and>
   cancellations (foldl (\<lambda>studio row. addToStudio row studio) s rows) =
     cancellations s + sum_list (map cancellations rows) \<and>
   lateCancellations (foldl (\<lambda>studio row. addToStudio row studio) s rows) =
     lateCancellations s + sum_list (map lateCancellations rows) \<and>
   noShows (foldl (\<lambda>studio row. addToStudio row studio) s rows) = noShows s + sum_list (map noShows rows) \<and>
   totalClasses (foldl (\<lambda>studio row. addToStudio row studio) s rows) =
     totalClasses s + sum_list (map totalClasses rows) \<and>
   uniqueClients (foldl (\<lambda>studio row. addToStudio row studio) s rows) =
     uniqueClients s + sum_list (map uniqueClients rows)"
  by (induction rows arbitrary: s) (simp_all add: addToStudio_def)

text \<open>Every entry of \<^verbatim>\<open>studioData\<close> after the loops is the fold over the rows of its location.\<close>

lemma studio_entry:
  assumes "(loc, studio) \<in> set (snd (runLoop e enriched cb cs))"
  shows "\<exists>r rs. rowsAt loc (fst (runLoop e enriched cb cs)) = r # rs \<and>
           studio = foldl (\<lambda>studio row. addToStudio row studio) (emptyStudio loc (period r)) (r # rs)"
proof -
  have inv: "loopInvariant (runLoop e enriched cb cs)" by (rule loopInvariant_runLoop)
  then have d: "distinct (map fst (snd (runLoop e enriched cb cs)))"
    and m: "map_of (snd (runLoop e enriched cb cs)) = (\<lambda>loc. rollup loc (fst (runLoop e enriched cb cs)))"
    by (simp_all add: loopInvariant_def)
  have "map_of (snd (runLoop e enriched cb cs)) loc = Some studio"
    using assms d by simp
  then have "rollup loc (fst (runLoop e enriched cb cs)) = Some studio"
    unfolding m .
  then show ?thesis by (auto simp: rollup_def split: list.splits)
qed

lemma studio_keys:
  "distinct (map fst (snd (runLoop e enriched cb cs))) \<and>
   fst ` set (snd (runLoop e enriched cb cs)) = location ` set (fst (runLoop e enriched cb cs))"
proof -
  have inv: "loopInvariant (runLoop e enriched cb cs)" by (rule loopInvariant_runLoop)
  have "loc \<in> fst ` set (snd (runLoop e enriched cb cs)) \<longleftrightarrow>
        loc \<in> location ` set (fst (runLoop e enriched cb cs))" for loc
  proof -
    have "loc \<in> fst ` set (snd (runLoop e enriched cb cs)) \<longleftrightarrow>
          map_of (snd (runLoop e enriched cb cs)) loc \<noteq> None"
      by (simp add: map_of_eq_None_iff)
    also have "\<dots> \<longleftrightarrow> rollup loc (fst (runLoop e enriched cb cs)) \<noteq> None"
      using inv by (simp add: loopInvariant_def)
    also have "\<dots> \<longleftrightarrow> rowsAt loc (fst (runLoop e enriched cb cs)) \<noteq> []"
      by (simp add: rollup_def split: list.splits)
    also have "\<dots> \<longleftrightarrow> loc \<in> location ` set (fst (runLoop e enriched cb cs))"
      by (auto simp: rowsAt_def filter_empty_conv)
    finally show ?thesis .
  qed
  then show ?thesis using inv by (auto simp: loopInvariant_def)
qed


subsection \<open>Fields of a cohort row\<close>

lemma cohortRow_fields:
  "teacherName (cohortRow e teacher loc per clients cb cs) = teacher"
  "location (cohortRow e teacher loc per clients cb cs) = loc"
  "period (cohortRow e teacher loc per clients cb cs) = per"
  "newClients (cohortRow e teacher loc per clients cb cs) = int (length clients)"
  "trials (cohortRow e teacher loc per clients cb cs) = count_trials e clients"
  "referrals (cohortRow e teacher loc per clients cb cs) = count_referrals clients"
  "hosted (cohortRow e teacher loc per clients cb cs) = count_hosted e clients"
  "influencerSignups (cohortRow e teacher loc per clients cb cs) = count_influencerSignups e clients"
  "others (cohortRow e teacher loc per clients cb cs) = count_others e clients"
  "retainedClients (cohortRow e teacher loc per clients cb cs) =
     int (length (retainedClientEmails (returnVisits e clients cb) clients))"
  "convertedClients (cohortRow e teacher loc per clients cb cs) =
     int (length (convertedClientEmails (convertedSales e clients cs)))"
  "totalRevenue (cohortRow e teacher loc per clients cb cs) = totalRevenue_of (convertedSales e clients cs)"
  by (simp_all add: cohortRow_def Let_def)

lemma cohortRow_rates:
  "retentionRate (cohortRow e teacher loc per clients cb cs) =
     percentage (int (length (retainedClientEmails (returnVisits e clients cb) clients))) (int (length clients))"
  "conversionRate (cohortRow e teacher loc per clients cb cs) =
     percentage (int (length (convertedClientEmails (convertedSales e clients cs)))) (int (length clients))"
  "firstTimeBuyerRate (cohortRow e teacher loc per clients cb cs) =
     percentage (int (length (convertedClientEmails (convertedSales e clients cs)))) (int (length clients))"
  "averageRevenuePerClient (cohortRow e teacher loc per clients cb cs) =
     averageRevenue (totalRevenue_of (convertedSales e clients cs))
       (int (length (convertedClientEmails (convertedSales e clients cs))))"
  "noShowRate (cohortRow e teacher loc per clients cb cs) =
     percentage (int (length (filter (\<lambda>booking. No_Show booking = ''YES'') (teacherBookings e teacher loc per cb))))
       (int (length (teacherBookings e teacher loc per cb)))"
  "lateCancellationRate (cohortRow e teacher loc per clients cb cs) =
     percentage (int (length (filter (\<lambda>booking. Late_Cancelled booking = ''YES'') (teacherBookings e teacher loc per cb))))
       (int (length (teacherBookings e teacher loc per cb)))"
  "influencerConversionRate (cohortRow e teacher loc per clients cb cs) =
     percentage (influencerConvertedCount e clients (convertedSales e clients cs)) (count_influencerSignups e clients)"
  "referralConversionRate (cohortRow e teacher loc per clients cb cs) =
     percentage (referralConvertedCount clients (convertedSales e clients cs)) (count_referrals clients)"
  "trialToMembershipConversion (cohortRow e teacher loc per clients cb cs) =
     percentage (trialConvertedCount e clients (convertedSales e clients cs)) (count_trials e clients)"
  by (simp_all add: cohortRow_def Let_def)

lemma percentage_finite: "percentage n d \<noteq> None"
  by (simp add: percentage_def js_divide_def)

lemma averageRevenue_finite: "averageRevenue r n \<noteq> None"
  by (simp add: averageRevenue_def js_divide_def)

lemma percentage_zero: "d = 0 \<Longrightarrow> percentage n d = Some 0"
  by (simp add: percentage_def)

lemma percentage_pos: "d > 0 \<Longrightarrow> percentage n d = Some (of_int n / of_int d * 100)"
  by (simp add: percentage_def js_divide_def)

subsection \<open>The example run\<close>

lemma specEnv_sel:
  "formatDateString specEnv = spec_formatDateString"
  "cleanFirstVisitValue specEnv = spec_cleanFirstVisitValue"
  "getMonthYearFromDate specEnv = spec_getMonthYearFromDate"
  "matchesPattern specEnv = spec_matchesPattern"
  "isDateAfter specEnv = spec_isDateAfter"
  "getTime specEnv = spec_getTime"
  "parseFloat specEnv = spec_parseFloat"
  by (simp_all add: specEnv_def)

lemma mkNew_sel:
  "Email (mkNew email membership visitAt visit loc teacher) = email"
  "Membership_used (mkNew email membership visitAt visit loc teacher) = membership"
  "First_visit_at (mkNew email membership visitAt visit loc teacher) = visitAt"
  "First_visit (mkNew email membership visitAt visit loc teacher) = visit"
  "First_visit_location (mkNew email membership visitAt visit loc teacher) = loc"
  "New_Teacher (mkNew email membership visitAt visit loc teacher) = teacher"
  "(mkNew email membership visitAt visit loc teacher)\<lparr>New_Teacher := t\<rparr> =
     mkNew email membership visitAt visit loc t"
  "(mkNew email membership visitAt visit loc teacher)\<lparr>First_visit_at := d, First_visit := v\<rparr> =
     mkNew email membership d v loc teacher"
  by (simp_all add: mkNew_def)

lemma mkBooking_sel:
  "Class_Name (mkBooking email className classDate loc teacher) = className"
  "Class_Date (mkBooking email className classDate loc teacher) = classDate"
  "Location (mkBooking email className classDate loc teacher) = loc"
  "Teacher (mkBooking email className classDate loc teacher) = teacher"
  "Customer_Email (mkBooking email className classDate loc teacher) = email"
  "Cancelled (mkBooking email className classDate loc teacher) = ''NO''"
  "Late_Cancelled (mkBooking email className classDate loc teacher) = ''NO''"
  "No_Show (mkBooking email className classDate loc teacher) = ''NO''"
  "(mkBooking email className classDate loc teacher)\<lparr>Class_Date := d, Class_Name := n\<rparr> =
     mkBooking email n d loc teacher"
  by (simp_all add: mkBooking_def)

lemma mkSale_sel:
  "Category (mkSale customer payer category item date v) = category"
  "Item (mkSale customer payer category item date v) = item"
  "Date (mkSale customer payer category item date v) = date"
  "Sale_value (mkSale customer payer category item date v) = v"
  "Refunded (mkSale customer payer category item date v) = ''NO''"
  "Paying_Customer_email (mkSale customer payer category item date v) = payer"
  "Customer_email (mkSale customer payer category item date v) = customer"
  by (simp_all add: mkSale_def)

lemma ex_dates:
  "dayNumber ''2024-01-05'' = Some 20240105"
  "dayNumber ''2024-01-20'' = Some 20240120"
  "dayNumber ''2024-02-05'' = Some 20240205"
  "dayNumber ''2024-02-12'' = Some 20240212"
  by (simp_all add: dayNumber_def digitValue_def)

lemma ex_periods:
  "spec_getMonthYearFromDate ''2024-01-05'' = ''January 2024''"
  "spec_getMonthYearFromDate ''2024-02-05'' = ''February 2024''"
  "spec_getMonthYearFromDate ''2024-02-12'' = ''February 2024''"
  by (simp_all add: spec_getMonthYearFromDate_def ex_dates)

lemma ex_formats:
  "spec_formatDateString ''2024-01-05'' = ''2024-01-05''"
  "spec_formatDateString ''2024-01-20'' = ''2024-01-20''"
  "spec_formatDateString ''2024-02-05'' = ''2024-02-05''"
  "spec_formatDateString ''2024-02-12'' = ''2024-02-12''"
  by (simp_all add: spec_formatDateString_def ex_dates)

lemma ex_labels:
  "spec_cleanFirstVisitValue ''Trial'' = ''Trial''"
  "spec_cleanFirstVisitValue ''Barre'' = ''Barre''"
  by (simp_all add: spec_cleanFirstVisitValue_def)

lemma ex_after:
  "\<not> spec_isDateAfter ''2024-01-05'' ''2024-01-05''"
  "\<not> spec_isDateAfter ''2024-02-05'' ''2024-02-05''"
  "spec_isDateAfter ''2024-02-12'' ''2024-01-05''"
  by (simp_all add: spec_isDateAfter_def ex_dates)

lemma ex_patterns:
  "\<not> spec_matchesPattern ''Studio Complimentary Referral Class'' ''friends|family|staff''"
  "\<not> spec_matchesPattern ''Class Pack'' ''friends|family|staff''"
  "\<not> spec_matchesPattern ''Trial'' ''friends|family|staff''"
  "\<not> spec_matchesPattern ''Studio Complimentary Referral Class'' ''Studio Open Barre Class|Newcomers 2 For 1''"
  "\<not> spec_matchesPattern ''Class Pack'' ''Studio Open Barre Class|Newcomers 2 For 1''"
  "\<not> spec_matchesPattern ''Trial'' ''hosted|x|p57|physique|weword|rugby|outdoor|birthday|bridal|shower''"
  "spec_matchesPattern ''Studio Complimentary Referral Class''
     ''sign-up|link|influencer|twain|ooo|lrs|x|p57|physique|complimentary''"
  "\<not> spec_matchesPattern ''Class Pack'' ''sign-up|link|influencer|twain|ooo|lrs|x|p57|physique|complimentary''"
  by (simp_all add: spec_matchesPattern_def toLowerCase_def)

lemma ex_lower:
  "toLowerCase ''Trial'' = ''trial''"
  "toLowerCase ''Membership'' = ''membership''"
  "toLowerCase ''10-Class Pack'' = ''10-class pack''"
  by (simp_all add: toLowerCase_def)

lemmas ex_env = mkNew_sel mkBooking_sel mkSale_sel specEnv_sel spec_getTime_def ex_dates ex_periods ex_formats ex_labels ex_after ex_patterns ex_lower

lemma ex_cleanedNew: "cleanedNewData specEnv exNew = exNew"
  by (simp add: cleanedNewData_def exNew_def ex_env)

lemma ex_cleanedBookings: "cleanedBookingsData specEnv exBookings = exBookings"
  by (simp add: cleanedBookingsData_def exBookings_def ex_env)

lemma ex_enriched: "enrichedNewData exNew exBookings = exEnriched"
  by (simp add: enrichedNewData_def exNew_def exEnriched_def exBookings_def ex_env)

lemma ex_cleanedSales: "cleanedSalesData specEnv (Some exSales) = exCleanedSales"
  by (simp add: cleanedSalesData_def exSales_def exCleanedSales_def cleanSaleValue_def ex_env mkSale_def)

lemma ex_keys: "cohortKeys specEnv exEnriched exBookings =
   [(''T1'', ''Studio A'', ''January 2024''), (''T1'', ''Studio A'', ''February 2024''),
    (''T2'', ''Studio A'', ''January 2024''), (''T2'', ''Studio A'', ''February 2024'')]"
  by (simp add: cohortKeys_def locations_of_def teachers_of_def periods_of_def uniq_def
        exEnriched_def exBookings_def ex_env)

lemma ex_clients:
  "teacherNewClients specEnv ''T1'' ''Studio A'' ''January 2024'' exEnriched =
     [mkNew ''a@x.com'' ''Studio Complimentary Referral Class'' ''2024-01-05'' ''Trial'' ''Studio A'' (Some ''T1'')]"
  "teacherNewClients specEnv ''T1'' ''Studio A'' ''February 2024'' exEnriched =
     [mkNew ''b@x.com'' ''Class Pack'' ''2024-02-05'' ''Trial'' ''Studio A'' (Some ''T1'')]"
  "teacherNewClients specEnv ''T2'' ''Studio A'' ''January 2024'' exEnriched = []"
  "teacherNewClients specEnv ''T2'' ''Studio A'' ''February 2024'' exEnriched = []"
  by (simp_all add: teacherNewClients_def exEnriched_def ex_env)


lemma ex_teacherBookings:
  "teacherBookings specEnv ''T1'' ''Studio A'' ''January 2024'' exBookings =
     [mkBooking ''a@x.com'' ''Trial'' ''2024-01-05'' ''Studio A'' ''T1'']"
  "teacherBookings specEnv ''T1'' ''Studio A'' ''February 2024'' exBookings =
     [mkBooking ''b@x.com'' ''Trial'' ''2024-02-05'' ''Studio A'' ''T1'']"
  by (simp_all add: teacherBookings_def exBookings_def ex_env)

lemma ex_returnVisits:
  "returnVisits specEnv
     [mkNew ''a@x.com'' ''Studio Complimentary Referral Class'' ''2024-01-05'' ''Trial'' ''Studio A'' (Some ''T1'')]
     exBookings = [mkBooking ''a@x.com'' ''Barre'' ''2024-02-12'' ''Studio B'' ''T2'']"
  "returnVisits specEnv
     [mkNew ''b@x.com'' ''Class Pack'' ''2024-02-05'' ''Trial'' ''Studio A'' (Some ''T1'')]
     exBookings = []"
  by (simp_all add: returnVisits_def exBookings_def ex_env)

lemmas sale_defs = qualifies_def matchingClient_def isConverted_sale_def saleDateAfterVisit_def
  isDateOnOrAfter_def notExcludedCategory_def not2For1Item_def hasMinimumSaleValue_def
  notRefunded_def

lemma ex_convertedSales:
  "convertedSales specEnv
     [mkNew ''a@x.com'' ''Studio Complimentary Referral Class'' ''2024-01-05'' ''Trial'' ''Studio A'' (Some ''T1'')]
     exCleanedSales = exCleanedSales"
  "convertedSales specEnv
     [mkNew ''b@x.com'' ''Class Pack'' ''2024-02-05'' ''Trial'' ''Studio A'' (Some ''T1'')]
     exCleanedSales = []"
  by (simp_all add: convertedSales_eq sale_defs exCleanedSales_def ex_env Let_def)

lemma ex_retained:
  "retainedClientEmails [mkBooking ''a@x.com'' ''Barre'' ''2024-02-12'' ''Studio B'' ''T2'']
     [mkNew ''a@x.com'' ''Studio Complimentary Referral Class'' ''2024-01-05'' ''Trial'' ''Studio A'' (Some ''T1'')]
     = [''a@x.com'']"
  "retainedClientEmails []
     [mkNew ''b@x.com'' ''Class Pack'' ''2024-02-05'' ''Trial'' ''Studio A'' (Some ''T1'')] = []"
  by (simp_all add: retainedClientEmails_eq isRetained_def ex_env Let_def)

lemma ex_counts:
  "count_trials specEnv [mkNew ''a@x.com'' ''Studio Complimentary Referral Class'' ''2024-01-05'' ''Trial'' ''Studio A'' (Some ''T1'')] = 0"
  "count_referrals [mkNew ''a@x.com'' ''Studio Complimentary Referral Class'' ''2024-01-05'' ''Trial'' ''Studio A'' (Some ''T1'')] = 1"
  "count_hosted specEnv [mkNew ''a@x.com'' ''Studio Complimentary Referral Class'' ''2024-01-05'' ''Trial'' ''Studio A'' (Some ''T1'')] = 0"
  "count_influencerSignups specEnv [mkNew ''a@x.com'' ''Studio Complimentary Referral Class'' ''2024-01-05'' ''Trial'' ''Studio A'' (Some ''T1'')] = 1"
  "count_trials specEnv [mkNew ''b@x.com'' ''Class Pack'' ''2024-02-05'' ''Trial'' ''Studio A'' (Some ''T1'')] = 0"
  "count_referrals [mkNew ''b@x.com'' ''Class Pack'' ''2024-02-05'' ''Trial'' ''Studio A'' (Some ''T1'')] = 0"
  "count_hosted specEnv [mkNew ''b@x.com'' ''Class Pack'' ''2024-02-05'' ''Trial'' ''Studio A'' (Some ''T1'')] = 0"
  "count_influencerSignups specEnv [mkNew ''b@x.com'' ''Class Pack'' ''2024-02-05'' ''Trial'' ''Studio A'' (Some ''T1'')] = 0"
  by (simp_all add: count_trials_def count_referrals_def count_hosted_def count_influencerSignups_def
        ex_env)

lemma ex_convertedCounts:
  "convertedClientEmails exCleanedSales = [''a@x.com'']"
  "totalRevenue_of exCleanedSales = 1200"
  "influencerConvertedCount specEnv
     [mkNew ''a@x.com'' ''Studio Complimentary Referral Class'' ''2024-01-05'' ''Trial'' ''Studio A'' (Some ''T1'')]
     exCleanedSales = 1"
  "referralConvertedCount
     [mkNew ''a@x.com'' ''Studio Complimentary Referral Class'' ''2024-01-05'' ''Trial'' ''Studio A'' (Some ''T1'')]
     exCleanedSales = 1"
  "trialConvertedCount specEnv
     [mkNew ''a@x.com'' ''Studio Complimentary Referral Class'' ''2024-01-05'' ''Trial'' ''Studio A'' (Some ''T1'')]
     exCleanedSales = 0"
  by (simp_all add: convertedClientEmails_def uniq_def saleEmail_def totalRevenue_of_eq
        influencerConvertedCount_def referralConvertedCount_def trialConvertedCount_def
        exCleanedSales_def ex_env)

lemma converted_counts_empty:
  "convertedClientEmails [] = []"
  "totalRevenue_of [] = 0"
  "influencerConvertedCount e clients [] = 0"
  "referralConvertedCount clients [] = 0"
  "trialConvertedCount e clients [] = 0"
  by (simp_all add: convertedClientEmails_def uniq_def totalRevenue_of_eq
        influencerConvertedCount_def referralConvertedCount_def trialConvertedCount_def)

lemma ex_row1:
  "cohortRow specEnv ''T1'' ''Studio A'' ''January 2024''
     [mkNew ''a@x.com'' ''Studio Complimentary Referral Class'' ''2024-01-05'' ''Trial'' ''Studio A'' (Some ''T1'')]
     exBookings exCleanedSales = exRow1"
  by (simp add: cohortRow_def exRow1_def ex_teacherBookings ex_returnVisits ex_convertedSales
        ex_retained ex_counts ex_convertedCounts count_others_def percentage_def averageRevenue_def
        js_divide_def uniq_def ex_env)

lemma ex_row2:
  "cohortRow specEnv ''T1'' ''Studio A'' ''February 2024''
     [mkNew ''b@x.com'' ''Class Pack'' ''2024-02-05'' ''Trial'' ''Studio A'' (Some ''T1'')]
     exBookings exCleanedSales = exRow2"
  by (simp add: cohortRow_def exRow2_def ex_teacherBookings ex_returnVisits ex_convertedSales
        ex_retained ex_counts converted_counts_empty count_others_def percentage_def averageRevenue_def
        js_divide_def uniq_def ex_env)

lemma ex_loop:
  "runLoop specEnv exEnriched exBookings exCleanedSales =
     ([exRow1, exRow2],
      [(''Studio A'', addToStudio exRow2 (addToStudio exRow1 (emptyStudio ''Studio A'' ''January 2024'')))])"
  by (simp add: runLoop_def ex_keys cohortStep_def ex_clients ex_row1 ex_row2 updateStudioData_def
        Let_def exRow1_def exRow2_def)

lemma ex_studio:
  "studioRates (addToStudio exRow2 (addToStudio exRow1 (emptyStudio ''Studio A'' ''January 2024''))) = exStudio"
  by (simp add: studioRates_def addToStudio_def emptyStudio_def exRow1_def exRow2_def exStudio_def
        percentage_def averageRevenue_def js_divide_def)

lemma ex_run: "processData specEnv exNew exBookings (Some exSales) = [exRow1, exRow2, exStudio]"
  by (simp add: processData_def cohortRows_def studioRows_def loopResult_def ex_cleanedNew
        ex_cleanedBookings ex_cleanedSales ex_enriched ex_loop ex_studio)


subsection \<open>Rows of the rollup\<close>

lemma ex_cohortRows: "cohortRows specEnv exNew exBookings (Some exSales) = [exRow1, exRow2]"
  by (simp add: cohortRows_def loopResult_def ex_cleanedNew ex_cleanedBookings ex_cleanedSales
        ex_enriched ex_loop)

lemma ex_studioRows: "studioRows specEnv exNew exBookings (Some exSales) = [exStudio]"
  by (simp add: studioRows_def loopResult_def ex_cleanedNew ex_cleanedBookings ex_cleanedSales
        ex_enriched ex_loop ex_studio)

lemma studioRates_fields:
  "teacherName (studioRates s) = teacherName s"
  "location (studioRates s) = location s"
  "period (studioRates s) = period s"
  "newClients (studioRates s) = newClients s"
  "trials (studioRates s) = trials s"
  "referrals (studioRates s) = referrals s"
  "hosted (studioRates s) = hosted s"
  "influencerSignups (studioRates s) = influencerSignups s"
  "others (studioRates s) = others s"
  "retainedClients (studioRates s) = retainedClients s"
  "convertedClients (studioRates s) = convertedClients s"
  "totalRevenue (studioRates s) = totalRevenue s"
  "totalVisits (studioRates s) = totalVisits s"
  "cancellations (studioRates s) = cancellations s"
  "lateCancellations (studioRates s) = lateCancellations s"
  "noShows (studioRates s) = noShows s"
  "totalClasses (studioRates s) = totalClasses s"
  "uniqueClients (studioRates s) = uniqueClients s"
  by (simp_all add: studioRates_def)

lemma studioRates_rates:
  "retentionRate (studioRates s) = percentage (retainedClients s) (newClients s)"
  "conversionRate (studioRates s) = percentage (convertedClients s) (newClients s)"
  "averageRevenuePerClient (studioRates s) = averageRevenue (totalRevenue s) (convertedClients s)"
  "noShowRate (studioRates s) = noShowRate s"
  "lateCancellationRate (studioRates s) = lateCancellationRate s"
  "firstTimeBuyerRate (studioRates s) = firstTimeBuyerRate s"
  "influencerConversionRate (studioRates s) = influencerConversionRate s"
  "referralConversionRate (studioRates s) = referralConversionRate s"
  "trialToMembershipConversion (studioRates s) = trialToMembershipConversion s"
  by (simp_all add: studioRates_def)

text \<open>A studio row of the result, in terms of the cohort rows of its location.\<close>

lemma studio_row:
  assumes "studio \<in> set (map (\<lambda>entry. studioRates (snd entry)) (snd (runLoop e enriched cb cs)))"
  shows "\<exists>r rs. rowsAt (location studio) (fst (runLoop e enriched cb cs)) = r # rs \<and>
           studio = studioRates (foldl (\<lambda>studio row. addToStudio row studio)
                      (emptyStudio (location studio) (period r)) (r # rs))"
proof -
  from assms obtain loc st where mem: "(loc, st) \<in> set (snd (runLoop e enriched cb cs))"
    and studio: "studio = studioRates st" by auto
  from studio_entry [OF mem] obtain r rs where
    rows: "rowsAt loc (fst (runLoop e enriched cb cs)) = r # rs" and
    st: "st = foldl (\<lambda>studio row. addToStudio row studio) (emptyStudio loc (period r)) (r # rs)"
    by blast
  have "location st = loc"
    unfolding st using fold_add_keys [of "emptyStudio loc (period r)" "r # rs"]
    by (simp add: emptyStudio_def)
  then have at: "location studio = loc" by (simp add: studio studioRates_fields)
  show ?thesis
    unfolding at by (rule exI [of _ r], rule exI [of _ rs]) (simp add: rows studio st)
qed

lemma studio_locations:
  "map location (map (\<lambda>entry. studioRates (snd entry)) (snd (runLoop e enriched cb cs))) =
   map fst (snd (runLoop e enriched cb cs))"
proof -
  have "location (studioRates (snd entry)) = fst entry"
    if "entry \<in> set (snd (runLoop e enriched cb cs))" for entry
  proof -
    from that have mem: "(fst entry, snd entry) \<in> set (snd (runLoop e enriched cb cs))" by simp
    from studio_entry [OF mem] obtain r rs where
      "snd entry = foldl (\<lambda>studio row. addToStudio row studio) (emptyStudio (fst entry) (period r)) (r # rs)"
      by blast
    then have "location (snd entry) = fst entry"
      using fold_add_keys [of "emptyStudio (fst entry) (period r)" "r # rs"]
      by (simp add: emptyStudio_def)
    then show ?thesis by (simp add: studioRates_fields)
  qed
  then show ?thesis by simp
qed

lemma emptyStudio_fields:
  "teacherName (emptyStudio loc per) = ''All Teachers''"
  "newClients (emptyStudio loc per) = 0" "trials (emptyStudio loc per) = 0"
  "referrals (emptyStudio loc per) = 0" "hosted (emptyStudio loc per) = 0"
  "influencerSignups (emptyStudio loc per) = 0" "others (emptyStudio loc per) = 0"
  "retainedClients (emptyStudio loc per) = 0" "convertedClients (emptyStudio loc per) = 0"
  "totalRevenue (emptyStudio loc per) = 0" "totalVisits (emptyStudio loc per) = 0"
  "cancellations (emptyStudio loc per) = 0" "lateCancellations (emptyStudio loc per) = 0"
  "noShows (emptyStudio loc per) = 0" "totalClasses (emptyStudio loc per) = 0"
  "uniqueClients (emptyStudio loc per) = 0"
  "noShowRate (emptyStudio loc per) = Some 0" "lateCancellationRate (emptyStudio loc per) = Some 0"
  "firstTimeBuyerRate (emptyStudio loc per) = Some 0"
  "influencerConversionRate (emptyStudio loc per) = Some 0"
  "referralConversionRate (emptyStudio loc per) = Some 0"
  "trialToMembershipConversion (emptyStudio loc per) = Some 0"
  by (simp_all add: emptyStudio_def)

lemma sum_list_ge_one:
  fixes f :: "'a \<Rightarrow> int"
  assumes "\<forall>x \<in> set xs. f x \<ge> 1" and "xs \<noteq> []"
  shows "sum_list (map f xs) \<ge> 1"
  using assms
proof (induction xs)
  case Nil
  then show ?case by simp
next
  case (Cons x xs)
  show ?case
  proof (cases "xs = []")
    case True
    with Cons.prems show ?thesis by simp
  next
    case False
    with Cons have "sum_list (map f xs) \<ge> 1" by simp
    moreover from Cons.prems have "f x \<ge> 1" by simp
    ultimately show ?thesis by simp
  qed
qed

lemma studio_newClients_pos:
  assumes "studio \<in> set (studioRows e newData bookingsData salesData)"
  shows "newClients studio > 0"
proof -
  define enriched where
    "enriched = enrichedNewData (cleanedNewData e newData) (cleanedBookingsData e bookingsData)"
  define cb where "cb = cleanedBookingsData e bookingsData"
  define cs where "cs = cleanedSalesData e salesData"
  have studios: "studioRows e newData bookingsData salesData =
      map (\<lambda>entry. studioRates (snd entry)) (snd (runLoop e enriched cb cs))"
    by (simp add: studioRows_def loopResult_def enriched_def cb_def cs_def Let_def)
  from assms studio_row [of studio e enriched cb cs] obtain r rs where
      at: "rowsAt (location studio) (fst (runLoop e enriched cb cs)) = r # rs" and
      st: "studio = studioRates (foldl (\<lambda>studio row. addToStudio row studio)
                      (emptyStudio (location studio) (period r)) (r # rs))"
    unfolding studios by blast
  have "\<forall>row \<in> set (fst (runLoop e enriched cb cs)). newClients row \<ge> 1"
  proof (rule rows_runLoop)
    fix teacher loc per and clients :: "NewRecord list"
    assume "clients \<noteq> []"
    then have "length clients \<ge> 1" by (cases clients) simp_all
    then show "newClients (cohortRow e teacher loc per clients cb cs) \<ge> 1"
      by (simp add: cohortRow_fields)
  qed
  then have "\<forall>row \<in> set (r # rs). newClients row \<ge> 1"
    using at unfolding rowsAt_def by (metis filter_is_subset subsetD)
  then have "sum_list (map newClients (r # rs)) \<ge> 1"
    by (rule sum_list_ge_one) simp
  moreover have "newClients studio = sum_list (map newClients (r # rs))"
    by (subst st) (simp only: studioRates_fields fold_add_counts emptyStudio_fields add_0)
  ultimately show ?thesis by simp
qed

subsection \<open>More facts about the example\<close>

lemmas ex_records = exClientA_def exClient2For1_def exFirstVisit_def exReturnVisit_def exCreditSale_def
  exSmallSale_def exFirstSale_def exSecondSale_def exPayerSale1_def exPayerSale2_def

lemma ex_lower_more:
  "toLowerCase ''Money-Credit'' = ''money-credit''"
  "toLowerCase ''2 For 1 Intro'' = ''2 for 1 intro''"
  by (simp_all add: toLowerCase_def)

lemma ex_sale_converted:
  "isConverted_sale specEnv exClientA exCreditSale"
  "\<not> isConverted_sale specEnv exClientA exSmallSale"
  "isConverted_sale specEnv exClientA exFirstSale"
  "isConverted_sale specEnv exClientA exSecondSale"
  "isConverted_sale specEnv exClientA exPayerSale1"
  "isConverted_sale specEnv exClientA exPayerSale2"
  by (simp_all add: ex_records sale_defs ex_env ex_lower_more Let_def)

lemma ex_matching:
  "matchingClient [exClientA] exCreditSale = Some exClientA"
  "matchingClient [exClientA] exSmallSale = Some exClientA"
  "matchingClient [exClientA] exFirstSale = Some exClientA"
  "matchingClient [exClientA] exSecondSale = Some exClientA"
  "matchingClient [exClientA] exPayerSale1 = Some exClientA"
  "matchingClient [exClientA] exPayerSale2 = Some exClientA"
  by (simp_all add: ex_records matchingClient_def ex_env)

lemma ex_clientA_email: "Email exClientA = ''a@x.com''"
  by (simp add: exClientA_def ex_env)

lemma ex_qualifies:
  "qualifies specEnv [exClientA] exCreditSale"
  "\<not> qualifies specEnv [exClientA] exSmallSale"
  "qualifies specEnv [exClientA] exFirstSale"
  "qualifies specEnv [exClientA] exSecondSale"
  "qualifies specEnv [exClientA] exPayerSale1"
  "qualifies specEnv [exClientA] exPayerSale2"
  "qualifiesFor specEnv [exClientA] ''a@x.com'' exCreditSale"
  "\<not> qualifiesFor specEnv [exClientA] ''a@x.com'' exSmallSale"
  "qualifiesFor specEnv [exClientA] ''a@x.com'' exFirstSale"
  "qualifiesFor specEnv [exClientA] ''a@x.com'' exSecondSale"
  "qualifiesFor specEnv [exClientA] ''a@x.com'' exPayerSale1"
  "qualifiesFor specEnv [exClientA] ''a@x.com'' exPayerSale2"
  by (simp_all add: qualifies_def qualifiesFor_def ex_matching ex_sale_converted ex_clientA_email)

lemma ex_sale_values:
  "Sale_value exSmallSale = 500" "Sale_value exFirstSale = 1200" "Sale_value exSecondSale = 1500"
  "saleEmail exPayerSale1 = ''z@x.com''" "saleEmail exPayerSale2 = ''y@x.com''"
  by (simp_all add: ex_records saleEmail_def ex_env)

lemma ex_returnVisits_A:
  "returnVisits specEnv [exClientA] exBookings = [exReturnVisit]"
  "returnVisits specEnv [exClient2For1] exBookings = [exReturnVisit]"
  by (simp_all add: returnVisits_def exBookings_def ex_records ex_env)

lemma ex_teacherBookings_A:
  "teacherBookings specEnv ''T1'' ''Studio A'' ''January 2024'' exBookings = [exFirstVisit]"
  by (simp add: teacherBookings_def exBookings_def ex_records ex_env)

lemma ex_clients_A:
  "teacherNewClients specEnv ''T1'' ''Studio A'' ''January 2024'' exEnriched = [exClientA]"
  by (simp add: ex_clients exClientA_def)

subsection \<open>Conversion status and rates\<close>

lemma isConverted_sale_iff:
  "isConverted_sale e client sale \<longleftrightarrow>
     isDateOnOrAfter e (Date sale) (First_visit_at client) \<and>
     \<not> js_includes (toLowerCase (Category sale)) ''money-credits'' \<and>
     \<not> js_includes (toLowerCase (Category sale)) ''retail'' \<and>
     \<not> js_includes (toLowerCase (Category sale)) ''product'' \<and>
     \<not> js_includes (toLowerCase (Item sale)) ''2 for 1'' \<and>
     Sale_value sale \<ge> 1000 \<and>
     Refunded sale \<noteq> ''YES''"
  by (simp add: isConverted_sale_def saleDateAfterVisit_def notExcludedCategory_def not2For1Item_def
        hasMinimumSaleValue_def notRefunded_def Let_def)

lemma converted_status_iff:
  "(\<exists>status. clientConversionMap e clients sales email = Some status \<and> isConverted status) \<longleftrightarrow>
   filter (qualifiesFor e clients email) sales \<noteq> []"
proof (cases "email \<in> Email ` set clients")
  case False
  then have "clientConversionMap e clients sales email = None"
    using clientConversionMap_cases [of email clients e sales] by simp
  moreover have "\<not> qualifiesFor e clients email sale" for sale
    using False by (auto simp: qualifiesFor_def split: option.splits dest: matchingClient_member)
  ultimately show ?thesis by (simp add: filter_empty_conv)
next
  case True
  show ?thesis
  proof (cases "filter (qualifiesFor e clients email) sales")
    case Nil
    then obtain r where "clientConversionMap e clients sales email = Some (unconverted r)"
      using clientConversionMap_cases [of email clients e sales] True by auto
    with Nil show ?thesis by (simp add: unconverted_def)
  next
    case (Cons q qs)
    then have "clientConversionMap e clients sales email = Some (attribution q)"
      using clientConversionMap_cases [of email clients e sales] True by simp
    with Cons show ?thesis by (simp add: attribution_def)
  qed
qed

lemma ex_small_status:
  "clientConversionMap specEnv [exClientA] [exSmallSale] ''a@x.com'' = Some (unconverted (BelowMinimum 500))"
  by (simp add: clientConversionMap_def conversionScan_def saleStep_def ex_matching ex_sale_converted
        initialConversionMap_def ex_clientA_email unconverted_def conversionReason_of_def Let_def)
     (simp add: ex_records sale_defs ex_env)

lemma sum_list_all_zero:
  fixes f :: "'a \<Rightarrow> 'b::monoid_add"
  shows "\<forall>x \<in> set xs. f x = 0 \<Longrightarrow> sum_list (map f xs) = 0"
  by (induction xs) simp_all

lemma cohortRow_rates_finite:
  "retentionRate (cohortRow e teacher loc per clients cb cs) \<noteq> None \<and>
   conversionRate (cohortRow e teacher loc per clients cb cs) \<noteq> None \<and>
   averageRevenuePerClient (cohortRow e teacher loc per clients cb cs) \<noteq> None \<and>
   noShowRate (cohortRow e teacher loc per clients cb cs) \<noteq> None \<and>
   lateCancellationRate (cohortRow e teacher loc per clients cb cs) \<noteq> None \<and>
   firstTimeBuyerRate (cohortRow e teacher loc per clients cb cs) \<noteq> None \<and>
   influencerConversionRate (cohortRow e teacher loc per clients cb cs) \<noteq> None \<and>
   referralConversionRate (cohortRow e teacher loc per clients cb cs) \<noteq> None \<and>
   trialToMembershipConversion (cohortRow e teacher loc per clients cb cs) \<noteq> None"
  by (simp only: cohortRow_rates percentage_finite averageRevenue_finite not_False_eq_True simp_thms)

lemma studio_rates_finite:
  assumes "studio \<in> set (map (\<lambda>entry. studioRates (snd entry)) (snd (runLoop e enriched cb cs)))"
  shows "retentionRate studio \<noteq> None \<and> conversionRate studio \<noteq> None \<and>
         averageRevenuePerClient studio \<noteq> None \<and>
         noShowRate studio = Some 0 \<and> lateCancellationRate studio = Some 0 \<and>
         firstTimeBuyerRate studio = Some 0 \<and> influencerConversionRate studio = Some 0 \<and>
         referralConversionRate studio = Some 0 \<and> trialToMembershipConversion studio = Some 0"
proof -
  from studio_row [OF assms] obtain r rs where
    st: "studio = studioRates (foldl (\<lambda>studio row. addToStudio row studio)
                      (emptyStudio (location studio) (period r)) (r # rs))"
    by blast
  show ?thesis
    by (subst st, simp only: studioRates_rates fold_add_rates emptyStudio_fields percentage_finite
          averageRevenue_finite not_False_eq_True simp_thms)+
qed

subsection \<open>The rows do not depend on the sales\<close>

lemma updateStudioData_Nil:
  "updateStudioData row [] = [(location row, addToStudio row (emptyStudio (location row) (period row)))]"
  by (simp add: updateStudioData_def)

lemma updateStudioData_Cons:
  "updateStudioData row ((k, s) # studios) =
     (if k = location row then (k, addToStudio row s) # studios
      else (k, s) # updateStudioData row studios)"
  by (simp add: updateStudioData_def Let_def)

lemma rowKey_addToStudio:
  "rowKey (addToStudio row s) = (teacherName s, location s, period s, newClients s + newClients row)"
  by (simp add: rowKey_def addToStudio_def)

lemma rowKey_update:
  assumes "map (\<lambda>entry. (fst entry, rowKey (snd entry))) studios =
           map (\<lambda>entry. (fst entry, rowKey (snd entry))) studios'"
    and "rowKey row = rowKey row'"
  shows "map (\<lambda>entry. (fst entry, rowKey (snd entry))) (updateStudioData row studios) =
         map (\<lambda>entry. (fst entry, rowKey (snd entry))) (updateStudioData row' studios')"
  using assms(1)
proof (induction studios arbitrary: studios')
  case Nil
  then have "studios' = []" by simp
  with assms(2) show ?case
    by (simp add: updateStudioData_Nil rowKey_addToStudio) (simp add: rowKey_def emptyStudio_def)
next
  case (Cons entry studios)
  then obtain entry' rest where s': "studios' = entry' # rest"
    and hd: "fst entry = fst entry'" "rowKey (snd entry) = rowKey (snd entry')"
    and tl: "map (\<lambda>entry. (fst entry, rowKey (snd entry))) studios =
             map (\<lambda>entry. (fst entry, rowKey (snd entry))) rest"
    by (cases studios') auto
  obtain k s where e: "entry = (k, s)" by (cases entry)
  obtain k' t where e': "entry' = (k', t)" by (cases entry')
  from hd e e' have k: "k' = k" and st: "rowKey s = rowKey t" by simp_all
  from assms(2) have loc: "location row' = location row" by (simp add: rowKey_def)
  show ?case
  proof (cases "k = location row")
    case True
    with k loc st assms(2) tl show ?thesis
      unfolding s' e e' by (simp add: updateStudioData_Cons rowKey_addToStudio) (simp add: rowKey_def)
  next
    case False
    with k loc st Cons.IH [OF tl] show ?thesis
      unfolding s' e e' by (simp add: updateStudioData_Cons)
  qed
qed

lemma rowKey_step:
  assumes "map rowKey (fst st) = map rowKey (fst st')"
    and "map (\<lambda>entry. (fst entry, rowKey (snd entry))) (snd st) =
         map (\<lambda>entry. (fst entry, rowKey (snd entry))) (snd st')"
  shows "map rowKey (fst (cohortStep e enriched cb cs st key)) =
           map rowKey (fst (cohortStep e enriched cb cs' st' key)) \<and>
         map (\<lambda>entry. (fst entry, rowKey (snd entry))) (snd (cohortStep e enriched cb cs st key)) =
           map (\<lambda>entry. (fst entry, rowKey (snd entry))) (snd (cohortStep e enriched cb cs' st' key))"
proof -
  obtain teacher loc per where key: "key = (teacher, loc, per)" by (cases key)
  have same: "rowKey (cohortRow e teacher loc per clients cb cs) =
              rowKey (cohortRow e teacher loc per clients cb cs')" for clients
    by (simp add: rowKey_def cohortRow_fields)
  show ?thesis
    using assms rowKey_update [OF assms(2) same]
    by (simp add: key cohortStep_def Let_def same)
qed

lemma rowKey_foldl:
  assumes "map rowKey (fst st) = map rowKey (fst st')"
    and "map (\<lambda>entry. (fst entry, rowKey (snd entry))) (snd st) =
         map (\<lambda>entry. (fst entry, rowKey (snd entry))) (snd st')"
  shows "map rowKey (fst (foldl (cohortStep e enriched cb cs) st keys)) =
           map rowKey (fst (foldl (cohortStep e enriched cb cs') st' keys)) \<and>
         map (\<lambda>entry. (fst entry, rowKey (snd entry))) (snd (foldl (cohortStep e enriched cb cs) st keys)) =
           map (\<lambda>entry. (fst entry, rowKey (snd entry))) (snd (foldl (cohortStep e enriched cb cs') st' keys))"
  using assms
proof (induction keys arbitrary: st st')
  case Nil
  then show ?case by simp
next
  case (Cons key keys)
  from rowKey_step [OF Cons.prems, of e enriched cb cs key cs']
  show ?case using Cons.IH by simp
qed

lemma rowKey_processData:
  "map rowKey (processData e newData bookingsData salesData) =
   map rowKey (processData e newData bookingsData salesData')"
proof -
  define enriched where
    "enriched = enrichedNewData (cleanedNewData e newData) (cleanedBookingsData e bookingsData)"
  define cb where "cb = cleanedBookingsData e bookingsData"
  define cs where "cs = cleanedSalesData e salesData"
  define cs' where "cs' = cleanedSalesData e salesData'"
  have run: "map rowKey (fst (runLoop e enriched cb cs)) = map rowKey (fst (runLoop e enriched cb cs')) \<and>
      map (\<lambda>entry. (fst entry, rowKey (snd entry))) (snd (runLoop e enriched cb cs)) =
      map (\<lambda>entry. (fst entry, rowKey (snd entry))) (snd (runLoop e enriched cb cs'))"
    unfolding runLoop_def by (rule rowKey_foldl) simp_all
  then have "map snd (map (\<lambda>entry. (fst entry, rowKey (snd entry))) (snd (runLoop e enriched cb cs))) =
      map snd (map (\<lambda>entry. (fst entry, rowKey (snd entry))) (snd (runLoop e enriched cb cs')))"
    by simp
  then have studios: "map (\<lambda>entry. rowKey (snd entry)) (snd (runLoop e enriched cb cs)) =
      map (\<lambda>entry. rowKey (snd entry)) (snd (runLoop e enriched cb cs'))"
    by (simp add: comp_def)
  have k: "rowKey (studioRates s) = rowKey s" for s
    by (simp add: rowKey_def studioRates_fields)
  have pd: "processData e newData bookingsData salesData =
      fst (runLoop e enriched cb cs) @ map (\<lambda>entry. studioRates (snd entry)) (snd (runLoop e enriched cb cs))"
    by (simp add: processData_def cohortRows_def studioRows_def loopResult_def enriched_def cb_def
          cs_def Let_def)
  have pd': "processData e newData bookingsData salesData' =
      fst (runLoop e enriched cb cs') @ map (\<lambda>entry. studioRates (snd entry)) (snd (runLoop e enriched cb cs'))"
    by (simp add: processData_def cohortRows_def studioRows_def loopResult_def enriched_def cb_def
          cs'_def Let_def)
  show ?thesis
    unfolding pd pd' using run studios by (simp add: comp_def k)
qed

subsection \<open>A sale with no customer e-mail\<close>

lemma ex_payer_only:
  "Customer_email exPayerOnlySale = []"
  "Paying_Customer_email exPayerOnlySale = ''a@x.com''"
  "matchingClient [exClientA] exPayerOnlySale = Some exClientA"
  "isConverted_sale specEnv exClientA exPayerOnlySale"
  by (simp_all add: exPayerOnlySale_def exClientA_def matchingClient_def sale_defs ex_env Let_def)

lemma ex_payer_only_qualifies:
  "qualifies specEnv [exClientA] exPayerOnlySale"
  "qualifiesFor specEnv [exClientA] ''a@x.com'' exPayerOnlySale"
  by (simp_all add: qualifies_def qualifiesFor_def ex_payer_only ex_clientA_email)

lemma ex_sale_emails:
  "Customer_email exFirstSale = ''a@x.com''"
  "Customer_email exPayerSale1 = ''z@x.com''" "Paying_Customer_email exPayerSale1 = ''a@x.com''"
  "Customer_email exPayerSale2 = ''y@x.com''" "Paying_Customer_email exPayerSale2 = ''a@x.com''"
  by (simp_all add: ex_records ex_env)

section \<open>The claims\<close>

subsection \<open>C1: what a studio rollup sums\<close>

text \<open>
  C1, as the code has it: \<^verbatim>\<open>studioData\<close> is keyed by the location alone. Every location
  that has a cohort row has exactly one rollup row; its staff-member field is
  \<^verbatim>\<open>'All Teachers'\<close>, and each of its counts is the sum of that count over all cohort rows
  of the location, whatever their period.
\<close>

theorem rollup_per_location_sums:
  "distinct (map location (studioRows e newData bookingsData salesData)) \<and>
   set (map location (studioRows e newData bookingsData salesData)) =
     set (map location (cohortRows e newData bookingsData salesData)) \<and>
   (\<forall>studio \<in> set (studioRows e newData bookingsData salesData).
      teacherName studio = ''All Teachers'' \<and>
      newClients studio =
        sum_list (map newClients (rowsAt (location studio) (cohortRows e newData bookingsData salesData))) \<and>
      trials studio =
        sum_list (map trials (rowsAt (location studio) (cohortRows e newData bookingsData salesData))) \<and>
      referrals studio =
        sum_list (map referrals (rowsAt (location studio) (cohortRows e newData bookingsData salesData))) \<and>
      hosted studio =
        sum_list (map hosted (rowsAt (location studio) (cohortRows e newData bookingsData salesData))) \<and>
      influencerSignups studio =
        sum_list (map influencerSignups (rowsAt (location studio) (cohortRows e newData bookingsData salesData))) \<and>
      others studio =
        sum_list (map others (rowsAt (location studio) (cohortRows e newData bookingsData salesData))) \<and>
      retainedClients studio =
        sum_list (map retainedClients (rowsAt (location studio) (cohortRows e newData bookingsData salesData))) \<and>
      convertedClients studio =
        sum_list (map convertedClients (rowsAt (location studio) (cohortRows e newData bookingsData salesData))) \<and>
      totalRevenue studio =
        sum_list (map totalRevenue (rowsAt (location studio) (cohortRows e newData bookingsData salesData))) \<and>
      totalVisits studio =
        sum_list (map totalVisits (rowsAt (location studio) (cohortRows e newData bookingsData salesData))) \<and>
      cancellations studio =
        sum_list (map cancellations (rowsAt (location studio) (cohortRows e newData bookingsData salesData))) \<and>
      lateCancellations studio =
        sum_list (map lateCancellations (rowsAt (location studio) (cohortRows e newData bookingsData salesData))) \<and>
      noShows studio =
        sum_list (map noShows (rowsAt (location studio) (cohortRows e newData bookingsData salesData))) \<and>
      totalClasses studio =
        sum_list (map totalClasses (rowsAt (location studio) (cohortRows e newData bookingsData salesData))) \<and>
      uniqueClients studio =
        sum_list (map uniqueClients (rowsAt (location studio) (cohortRows e newData bookingsData salesData))))"
proof -
  define enriched where
    "enriched = enrichedNewData (cleanedNewData e newData) (cleanedBookingsData e bookingsData)"
  define cb where "cb = cleanedBookingsData e bookingsData"
  define cs where "cs = cleanedSalesData e salesData"
  have rows: "cohortRows e newData bookingsData salesData = fst (runLoop e enriched cb cs)"
    by (simp add: cohortRows_def loopResult_def enriched_def cb_def cs_def Let_def)
  have studios: "studioRows e newData bookingsData salesData =
      map (\<lambda>entry. studioRates (snd entry)) (snd (runLoop e enriched cb cs))"
    by (simp add: studioRows_def loopResult_def enriched_def cb_def cs_def Let_def)
  have locs: "map location (studioRows e newData bookingsData salesData) = map fst (snd (runLoop e enriched cb cs))"
    unfolding studios by (rule studio_locations)
  have 1: "distinct (map location (studioRows e newData bookingsData salesData))"
    unfolding locs using studio_keys [of e enriched cb cs] by simp
  have 2: "set (map location (studioRows e newData bookingsData salesData)) =
     set (map location (cohortRows e newData bookingsData salesData))"
    unfolding locs rows using studio_keys [of e enriched cb cs] by simp
  have 3: "teacherName studio = ''All Teachers'' \<and>
      newClients studio = sum_list (map newClients (rowsAt (location studio) (fst (runLoop e enriched cb cs)))) \<and>
      trials studio = sum_list (map trials (rowsAt (location studio) (fst (runLoop e enriched cb cs)))) \<and>
      referrals studio = sum_list (map referrals (rowsAt (location studio) (fst (runLoop e enriched cb cs)))) \<and>
      hosted studio = sum_list (map hosted (rowsAt (location studio) (fst (runLoop e enriched cb cs)))) \<and>
      influencerSignups studio = sum_list (map influencerSignups (rowsAt (location studio) (fst (runLoop e enriched cb cs)))) \<and>
      others studio = sum_list (map others (rowsAt (location studio) (fst (runLoop e enriched cb cs)))) \<and>
      retainedClients studio = sum_list (map retainedClients (rowsAt (location studio) (fst (runLoop e enriched cb cs)))) \<and>
      convertedClients studio = sum_list (map convertedClients (rowsAt (location studio) (fst (runLoop e enriched cb cs)))) \<and>
      totalRevenue studio = sum_list (map totalRevenue (rowsAt (location studio) (fst (runLoop e enriched cb cs)))) \<and>
      totalVisits studio = sum_list (map totalVisits (rowsAt (location studio) (fst (runLoop e enriched cb cs)))) \<and>
      cancellations studio = sum_list (map cancellations (rowsAt (location studio) (fst (runLoop e enriched cb cs)))) \<and>
      lateCancellations studio = sum_list (map lateCancellations (rowsAt (location studio) (fst (runLoop e enriched cb cs)))) \<and>
      noShows studio = sum_list (map noShows (rowsAt (location studio) (fst (runLoop e enriched cb cs)))) \<and>
      totalClasses studio = sum_list (map totalClasses (rowsAt (location studio) (fst (runLoop e enriched cb cs)))) \<and>
      uniqueClients studio = sum_list (map uniqueClients (rowsAt (location studio) (fst (runLoop e enriched cb cs))))"
    if "studio \<in> set (studioRows e newData bookingsData salesData)" for studio
  proof -
    from that studio_row [of studio e enriched cb cs] obtain r rs where
      at: "rowsAt (location studio) (fst (runLoop e enriched cb cs)) = r # rs" and
      st: "studio = studioRates (foldl (\<lambda>studio row. addToStudio row studio)
                      (emptyStudio (location studio) (period r)) (r # rs))"
      unfolding studios by blast
    show ?thesis
      unfolding at
      by (subst st, simp only: studioRates_fields fold_add_keys fold_add_counts fold_add_attendance
            emptyStudio_fields, simp)+
  qed
  from 1 2 3 show ?thesis unfolding rows by blast
qed


text \<open>
  C1 as stated fails: in the example run the location has cohorts in two periods. There is
  one rollup, stamped with the first period; it counts 2 new clients where the cohorts
  of that location and period count 1, and the second period has no rollup.
\<close>

theorem rollup_per_period_counterexample:
  "map (\<lambda>row. (teacherName row, location row, period row, newClients row))
     (processData specEnv exNew exBookings (Some exSales)) =
   [(''T1'', ''Studio A'', ''January 2024'', 1),
    (''T1'', ''Studio A'', ''February 2024'', 1),
    (''All Teachers'', ''Studio A'', ''January 2024'', 2)]"
  by (simp add: ex_run exRow1_def exRow2_def exStudio_def)

text \<open>
  The rollup of the example run, by the theorem.
\<close>

theorem rollup_per_location_sums_witness:
  "studioRows specEnv exNew exBookings (Some exSales) = [exStudio] \<and>
   cohortRows specEnv exNew exBookings (Some exSales) = [exRow1, exRow2] \<and>
   location exStudio = ''Studio A'' \<and>
   teacherName exStudio = ''All Teachers'' \<and>
   newClients exStudio = sum_list (map newClients (rowsAt ''Studio A'' [exRow1, exRow2])) \<and>
   convertedClients exStudio = sum_list (map convertedClients (rowsAt ''Studio A'' [exRow1, exRow2])) \<and>
   totalRevenue exStudio = sum_list (map totalRevenue (rowsAt ''Studio A'' [exRow1, exRow2]))"
proof -
  have loc: "location exStudio = ''Studio A''" by (simp add: exStudio_def)
  show ?thesis
    using rollup_per_location_sums [of specEnv exNew exBookings "Some exSales"]
    unfolding ex_studioRows ex_cohortRows by (simp add: loc)
qed

subsection \<open>C2: when a sale qualifies\<close>

text \<open>
  C2, as the code has it: for a client and a sale, \<^verbatim>\<open>isConverted\<close> holds if and only if
  the sale date is on or after the first-visit date, the lower-cased category contains
  none of \<^verbatim>\<open>money-credits\<close>, \<^verbatim>\<open>retail\<close>, \<^verbatim>\<open>product\<close>, the lower-cased item does not contain
  \<^verbatim>\<open>2 for 1\<close>, the value is at least 1000 and the sale is not refunded. The filter keeps
  exactly the sales for which this holds of their matching client, a client's map entry
  is converted exactly when some sale matched to the client qualifies, and sales below
  1000 convert no one.
\<close>

theorem sale_qualifies_iff:
  "(isConverted_sale e client sale \<longleftrightarrow>
      isDateOnOrAfter e (Date sale) (First_visit_at client) \<and>
      \<not> js_includes (toLowerCase (Category sale)) ''money-credits'' \<and>
      \<not> js_includes (toLowerCase (Category sale)) ''retail'' \<and>
      \<not> js_includes (toLowerCase (Category sale)) ''product'' \<and>
      \<not> js_includes (toLowerCase (Item sale)) ''2 for 1'' \<and>
      Sale_value sale \<ge> 1000 \<and>
      Refunded sale \<noteq> ''YES'') \<and>
   (sale \<in> set (convertedSales e clients sales) \<longleftrightarrow>
      sale \<in> set sales \<and>
      (\<exists>client. matchingClient clients sale = Some client \<and> isConverted_sale e client sale)) \<and>
   ((\<exists>status. clientConversionMap e clients sales email = Some status \<and> isConverted status) \<longleftrightarrow>
      (\<exists>sale \<in> set sales. \<exists>client. matchingClient clients sale = Some client \<and>
          Email client = email \<and> isConverted_sale e client sale)) \<and>
   ((\<forall>sale \<in> set sales. Sale_value sale < 1000) \<longrightarrow>
      convertedSales e clients sales = [] \<and>
      (\<forall>email status. clientConversionMap e clients sales email = Some status \<longrightarrow> \<not> isConverted status))"
proof -
  have 1: "isConverted_sale e client sale \<longleftrightarrow>
      isDateOnOrAfter e (Date sale) (First_visit_at client) \<and>
      \<not> js_includes (toLowerCase (Category sale)) ''money-credits'' \<and>
      \<not> js_includes (toLowerCase (Category sale)) ''retail'' \<and>
      \<not> js_includes (toLowerCase (Category sale)) ''product'' \<and>
      \<not> js_includes (toLowerCase (Item sale)) ''2 for 1'' \<and>
      Sale_value sale \<ge> 1000 \<and>
      Refunded sale \<noteq> ''YES''"
    by (rule isConverted_sale_iff)
  have 2: "sale \<in> set (convertedSales e clients sales) \<longleftrightarrow>
      sale \<in> set sales \<and>
      (\<exists>client. matchingClient clients sale = Some client \<and> isConverted_sale e client sale)"
    by (auto simp add: convertedSales_eq qualifies_def split: option.splits)
  have 3: "(\<exists>status. clientConversionMap e clients sales em = Some status \<and> isConverted status) \<longleftrightarrow>
      (\<exists>sale \<in> set sales. \<exists>client. matchingClient clients sale = Some client \<and>
          Email client = em \<and> isConverted_sale e client sale)" for em
    unfolding converted_status_iff
    by (auto simp add: filter_empty_conv qualifiesFor_def split: option.splits)
  have 4: "convertedSales e clients sales = [] \<and>
      (\<forall>email status. clientConversionMap e clients sales email = Some status \<longrightarrow> \<not> isConverted status)"
    if small: "\<forall>sale \<in> set sales. Sale_value sale < 1000"
  proof -
    have no: "\<not> isConverted_sale e c s" if "s \<in> set sales" for c s
      using small that by (auto simp: isConverted_sale_iff)
    have "convertedSales e clients sales = []"
      using no by (auto simp add: convertedSales_eq filter_empty_conv qualifies_def split: option.splits)
    moreover have "\<not> isConverted status"
      if "clientConversionMap e clients sales em = Some status" for em status
    proof
      assume "isConverted status"
      with that 3 [of em] obtain s c where "s \<in> set sales" "isConverted_sale e c s" by blast
      with no show False by blast
    qed
    ultimately show ?thesis by blast
  qed
  from 1 2 3 [of email] 4 show ?thesis by blast
qed

text \<open>
  A sale of 500 for the first client: nothing is kept, and the client's entry stays
  unconverted with the reason that names the minimum.
\<close>

theorem sale_qualifies_iff_witness:
  "Sale_value exSmallSale = 500 \<and>
   \<not> isConverted_sale specEnv exClientA exSmallSale \<and>
   convertedSales specEnv [exClientA] [exSmallSale] = [] \<and>
   clientConversionMap specEnv [exClientA] [exSmallSale] ''a@x.com'' = Some (unconverted (BelowMinimum 500))"
proof -
  have small: "\<forall>sale \<in> set [exSmallSale]. Sale_value sale < 1000"
    by (simp add: ex_sale_values)
  show ?thesis
    using sale_qualifies_iff [of specEnv exClientA exSmallSale "[exClientA]" "[exSmallSale]" "''a@x.com''"] small
    by (auto simp add: ex_sale_values ex_small_status)
qed

text \<open>
  C2 as stated fails on the first keyword: the code looks for \<^verbatim>\<open>money-credits\<close>. A sale
  whose category is \<^verbatim>\<open>Money-Credit\<close> contains \<^verbatim>\<open>money-credit\<close>, and it qualifies and marks
  the client converted.
\<close>

theorem excluded_keyword_counterexample:
  "js_includes (toLowerCase (Category exCreditSale)) ''money-credit'' \<and>
   matchingClient [exClientA] exCreditSale = Some exClientA \<and>
   isConverted_sale specEnv exClientA exCreditSale \<and>
   convertedSales specEnv [exClientA] [exCreditSale] = [exCreditSale] \<and>
   clientConversionMap specEnv [exClientA] [exCreditSale] ''a@x.com'' = Some (attribution exCreditSale)"
proof -
  have "js_includes (toLowerCase (Category exCreditSale)) ''money-credit''"
    by (simp add: exCreditSale_def ex_env ex_lower_more)
  moreover have "convertedSales specEnv [exClientA] [exCreditSale] = [exCreditSale]"
    by (simp add: convertedSales_eq ex_qualifies)
  moreover have "clientConversionMap specEnv [exClientA] [exCreditSale] ''a@x.com'' =
      Some (attribution exCreditSale)"
    using clientConversionMap_cases [of "''a@x.com''" "[exClientA]" specEnv "[exCreditSale]"]
    by (simp add: ex_qualifies ex_clientA_email)
  ultimately show ?thesis by (simp add: ex_matching ex_sale_converted)
qed


subsection \<open>C3: first-purchase attribution, full-sum revenue\<close>

text \<open>
  C3: when the sales that qualify for an e-mail address are \<open>q\<close> followed by \<open>qs\<close>, in
  dataset order, the map entry of that address holds the date, item and value of \<open>q\<close>,
  and it still does after any further sales; the cohort's \<^verbatim>\<open>totalRevenue\<close> is the sum of
  the values of all qualifying sales.
\<close>

theorem first_qualifying_sale_attributed:
  assumes "filter (qualifiesFor e clients email) sales = q # qs"
  shows "clientConversionMap e clients sales email = Some (attribution q) \<and>
         clientConversionMap e clients (sales @ later) email = Some (attribution q) \<and>
         totalRevenue (cohortRow e teacher loc per clients cb sales) =
           sum_list (map Sale_value (filter (qualifies e clients) sales))"
proof -
  have "q \<in> set (filter (qualifiesFor e clients email) sales)" using assms by simp
  then have "qualifiesFor e clients email q" by simp
  then have mem: "email \<in> Email ` set clients"
    by (auto simp: qualifiesFor_def split: option.splits dest: matchingClient_member)
  have 1: "clientConversionMap e clients sales email = Some (attribution q)"
    using clientConversionMap_cases [of email clients e sales] mem assms by simp
  have "filter (qualifiesFor e clients email) (sales @ later) =
          q # (qs @ filter (qualifiesFor e clients email) later)"
    using assms by simp
  then have 2: "clientConversionMap e clients (sales @ later) email = Some (attribution q)"
    using clientConversionMap_cases [of email clients e "sales @ later"] mem by simp
  have 3: "totalRevenue (cohortRow e teacher loc per clients cb sales) =
           sum_list (map Sale_value (filter (qualifies e clients) sales))"
    by (simp add: cohortRow_fields totalRevenue_of_eq convertedSales_eq)
  from 1 2 3 show ?thesis by simp
qed

text \<open>
  A sale of 500, then one of 1200, then one of 1500 for the same client: the entry holds
  the sale of 1200, before and after the third sale, and the revenue is 2700.
\<close>

theorem first_qualifying_sale_attributed_witness:
  "filter (qualifiesFor specEnv [exClientA] ''a@x.com'') [exSmallSale, exFirstSale] = [exFirstSale] \<and>
   clientConversionMap specEnv [exClientA] [exSmallSale, exFirstSale] ''a@x.com'' =
     Some (attribution exFirstSale) \<and>
   clientConversionMap specEnv [exClientA] ([exSmallSale, exFirstSale] @ [exSecondSale]) ''a@x.com'' =
     Some (attribution exFirstSale) \<and>
   purchaseValue (attribution exFirstSale) = Some 1200 \<and>
   totalRevenue (cohortRow specEnv ''T1'' ''Studio A'' ''January 2024'' [exClientA] exBookings
                   [exSmallSale, exFirstSale, exSecondSale]) = 2700"
proof -
  have f: "filter (qualifiesFor specEnv [exClientA] ''a@x.com'') [exSmallSale, exFirstSale] = [exFirstSale]"
    by (simp add: ex_qualifies)
  have g: "filter (qualifiesFor specEnv [exClientA] ''a@x.com'') [exSmallSale, exFirstSale, exSecondSale] =
      [exFirstSale, exSecondSale]"
    by (simp add: ex_qualifies)
  have v: "purchaseValue (attribution exFirstSale) = Some 1200"
    by (simp add: attribution_def ex_sale_values)
  show ?thesis
    using first_qualifying_sale_attributed [OF f, of "[exSecondSale]"]
      first_qualifying_sale_attributed [OF g, of "[]" "''T1''" "''Studio A''" "''January 2024''" exBookings]
    by (simp add: f v ex_qualifies ex_sale_values)
qed

subsection \<open>C4: return visits\<close>

text \<open>
  C4, as the code has it: the return visits of a cohort are drawn from all attendance
  records, of any staff member, location and period. A record is a return visit exactly
  when its customer e-mail is that of a cohort member, its class date is strictly after
  the first-visit date of the first such member, and its three flags are all \<^verbatim>\<open>NO\<close>.
\<close>

theorem returnVisits_iff:
  "booking \<in> set (returnVisits e clients cb) \<longleftrightarrow>
     booking \<in> set cb \<and>
     (\<exists>client. find (\<lambda>client. Email client = Customer_Email booking) clients = Some client \<and>
        isDateAfter e (Class_Date booking) (First_visit_at client)) \<and>
     Cancelled booking = ''NO'' \<and> Late_Cancelled booking = ''NO'' \<and> No_Show booking = ''NO''"
  by (auto simp add: returnVisits_def split: option.splits)

text \<open>
  The second visit of the first client is a return visit.
\<close>

theorem returnVisits_iff_witness:
  "exReturnVisit \<in> set exBookings \<and>
   find (\<lambda>client. Email client = Customer_Email exReturnVisit) [exClientA] = Some exClientA \<and>
   isDateAfter specEnv (Class_Date exReturnVisit) (First_visit_at exClientA) \<and>
   exReturnVisit \<in> set (returnVisits specEnv [exClientA] exBookings)"
proof -
  have "exReturnVisit \<in> set exBookings" by (simp add: exBookings_def exReturnVisit_def)
  moreover have "find (\<lambda>client. Email client = Customer_Email exReturnVisit) [exClientA] = Some exClientA"
    by (simp add: ex_records ex_env)
  moreover have "isDateAfter specEnv (Class_Date exReturnVisit) (First_visit_at exClientA)"
    by (simp add: ex_records ex_env)
  moreover have "Cancelled exReturnVisit = ''NO'' \<and> Late_Cancelled exReturnVisit = ''NO'' \<and>
      No_Show exReturnVisit = ''NO''"
    by (simp add: ex_records ex_env)
  ultimately show ?thesis
    using returnVisits_iff [of exReturnVisit specEnv "[exClientA]" exBookings] by blast
qed

text \<open>
  C4 as stated fails: that visit is taught by T2 at Studio B in February, so it is not
  among the attendance records of the cohort (T1, Studio A, January 2024), and yet it is
  the return visit that makes the client retained in that cohort.
\<close>

theorem returnVisits_restricted_counterexample:
  "teacherNewClients specEnv ''T1'' ''Studio A'' ''January 2024'' exEnriched = [exClientA] \<and>
   teacherBookings specEnv ''T1'' ''Studio A'' ''January 2024'' exBookings = [exFirstVisit] \<and>
   returnVisits specEnv [exClientA] exBookings = [exReturnVisit] \<and>
   Teacher exReturnVisit = ''T2'' \<and> Location exReturnVisit = ''Studio B'' \<and>
   getMonthYearFromDate specEnv (Class_Date exReturnVisit) = ''February 2024'' \<and>
   retainedClients (cohortRow specEnv ''T1'' ''Studio A'' ''January 2024'' [exClientA] exBookings []) = 1"
proof -
  have "retainedClients (cohortRow specEnv ''T1'' ''Studio A'' ''January 2024'' [exClientA] exBookings []) = 1"
    by (simp add: cohortRow_fields ex_returnVisits_A retainedClientEmails_eq isRetained_def)
       (simp add: ex_records ex_env)
  moreover have "Teacher exReturnVisit = ''T2'' \<and> Location exReturnVisit = ''Studio B'' \<and>
      getMonthYearFromDate specEnv (Class_Date exReturnVisit) = ''February 2024''"
    by (simp add: ex_records ex_env)
  ultimately show ?thesis
    by (simp add: ex_clients_A ex_teacherBookings_A ex_returnVisits_A)
qed

subsection \<open>C5: the retention threshold\<close>

text \<open>
  C5: the e-mail addresses pushed as retained are those of the cohort members whose number
  of return visits is at least 2 when the lower-cased first-visit label contains
  \<^verbatim>\<open>2 for 1\<close>, and at least 1 otherwise; the retained count is the number of these members.
\<close>

theorem retained_iff_threshold:
  "retainedClientEmails (returnVisits e clients cb) clients =
     map Email (filter (\<lambda>client.
        length (filter (\<lambda>visit. Customer_Email visit = Email client) (returnVisits e clients cb))
          \<ge> (if js_includes (toLowerCase (First_visit client)) ''2 for 1'' then 2 else 1)) clients) \<and>
   retainedClients (cohortRow e teacher loc per clients cb cs) =
     int (length (filter (\<lambda>client.
        length (filter (\<lambda>visit. Customer_Email visit = Email client) (returnVisits e clients cb))
          \<ge> (if js_includes (toLowerCase (First_visit client)) ''2 for 1'' then 2 else 1)) clients))"
proof -
  have "isRetained visits = (\<lambda>client.
        length (filter (\<lambda>visit. Customer_Email visit = Email client) visits)
          \<ge> (if js_includes (toLowerCase (First_visit client)) ''2 for 1'' then 2 else 1))" for visits
    by (auto simp add: isRetained_def Let_def fun_eq_iff)
  then show ?thesis
    by (simp add: cohortRow_fields retainedClientEmails_eq)
qed

text \<open>
  With one return visit the first client is retained; a client whose first class is
  \<^verbatim>\<open>2 For 1 Intro\<close> is not.
\<close>

theorem retained_iff_threshold_witness:
  "returnVisits specEnv [exClientA] exBookings = [exReturnVisit] \<and>
   retainedClientEmails (returnVisits specEnv [exClientA] exBookings) [exClientA] = [''a@x.com''] \<and>
   returnVisits specEnv [exClient2For1] exBookings = [exReturnVisit] \<and>
   retainedClientEmails (returnVisits specEnv [exClient2For1] exBookings) [exClient2For1] = []"
  using retained_iff_threshold [of specEnv "[exClientA]" exBookings]
    retained_iff_threshold [of specEnv "[exClient2For1]" exBookings]
  unfolding ex_returnVisits_A
  by (simp add: ex_records ex_env ex_lower_more)


subsection \<open>C6: the rates of a studio rollup\<close>

text \<open>
  C6, as the code has it: in every rollup row the retention rate and the conversion rate
  are recomputed from the rollup's own summed counts, as \<open>retained / new * 100\<close> and
  \<open>converted / new * 100\<close>; the new-client count of a rollup is never zero.
\<close>

theorem rollup_rates_recomputed:
  "\<forall>studio \<in> set (studioRows e newData bookingsData salesData).
     retentionRate studio =
       Some (of_int (retainedClients studio) / of_int (newClients studio) * 100) \<and>
     conversionRate studio =
       Some (of_int (convertedClients studio) / of_int (newClients studio) * 100)"
proof
  fix studio
  assume mem: "studio \<in> set (studioRows e newData bookingsData salesData)"
  then have pos: "newClients studio > 0" by (rule studio_newClients_pos)
  from mem obtain st where "studio = studioRates st"
    by (auto simp: studioRows_def)
  then have "retentionRate studio = percentage (retainedClients studio) (newClients studio)"
    and "conversionRate studio = percentage (convertedClients studio) (newClients studio)"
    by (simp_all add: studioRates_rates studioRates_fields)
  with pos show "retentionRate studio =
       Some (of_int (retainedClients studio) / of_int (newClients studio) * 100) \<and>
     conversionRate studio =
       Some (of_int (convertedClients studio) / of_int (newClients studio) * 100)"
    by (simp add: percentage_pos)
qed

text \<open>
  The rollup of the example run: 1 of 2 retained and 1 of 2 converted, 50 percent each.
\<close>

theorem rollup_rates_recomputed_witness:
  "studioRows specEnv exNew exBookings (Some exSales) = [exStudio] \<and>
   retainedClients exStudio = 1 \<and> convertedClients exStudio = 1 \<and> newClients exStudio = 2 \<and>
   retentionRate exStudio = Some 50 \<and> conversionRate exStudio = Some 50"
proof -
  have "retainedClients exStudio = 1" "convertedClients exStudio = 1" "newClients exStudio = 2"
    by (simp_all add: exStudio_def)
  then show ?thesis
    using rollup_rates_recomputed [of specEnv exNew exBookings "Some exSales"]
    unfolding ex_studioRows by simp
qed

text \<open>
  C6 as stated fails: the rollup of the example run has 1 converted client among 2 new
  clients, and its first-time-buyer rate is 0, not 50: the loop over \<^verbatim>\<open>studioData\<close>
  leaves that rate at its initial value.
\<close>

theorem rollup_all_rates_counterexample:
  "map (\<lambda>row. (teacherName row, newClients row, convertedClients row, firstTimeBuyerRate row))
     (processData specEnv exNew exBookings (Some exSales)) =
   [(''T1'', 1, 1, Some 100), (''T1'', 1, 0, Some 0), (''All Teachers'', 2, 1, Some 0)]"
  by (simp add: ex_run exRow1_def exRow2_def exStudio_def)

subsection \<open>C7: channel counts\<close>

text \<open>
  C7, as the code has it: each of the four channel counts is the number of cohort members
  that pass that channel's own test, so each lies between 0 and the new-client count;
  \<^verbatim>\<open>others\<close> is the new-client count minus their sum, and the five counts add up to the
  new-client count.
\<close>

theorem channel_counts:
  "trials (cohortRow e teacher loc per clients cb cs) =
     int (length (filter (\<lambda>record. matchesPattern e (Membership_used record)
                                     ''Studio Open Barre Class|Newcomers 2 For 1'') clients)) \<and>
   referrals (cohortRow e teacher loc per clients cb cs) =
     int (length (filter (\<lambda>record. Membership_used record = ''Studio Complimentary Referral Class'') clients)) \<and>
   hosted (cohortRow e teacher loc per clients cb cs) =
     int (length (filter (\<lambda>record. matchesPattern e (First_visit record)
                     ''hosted|x|p57|physique|weword|rugby|outdoor|birthday|bridal|shower'') clients)) \<and>
   influencerSignups (cohortRow e teacher loc per clients cb cs) =
     int (length (filter (\<lambda>record. matchesPattern e (Membership_used record)
                     ''sign-up|link|influencer|twain|ooo|lrs|x|p57|physique|complimentary'') clients)) \<and>
   0 \<le> trials (cohortRow e teacher loc per clients cb cs) \<and>
   trials (cohortRow e teacher loc per clients cb cs) \<le> newClients (cohortRow e teacher loc per clients cb cs) \<and>
   0 \<le> referrals (cohortRow e teacher loc per clients cb cs) \<and>
   referrals (cohortRow e teacher loc per clients cb cs) \<le> newClients (cohortRow e teacher loc per clients cb cs) \<and>
   0 \<le> hosted (cohortRow e teacher loc per clients cb cs) \<and>
   hosted (cohortRow e teacher loc per clients cb cs) \<le> newClients (cohortRow e teacher loc per clients cb cs) \<and>
   0 \<le> influencerSignups (cohortRow e teacher loc per clients cb cs) \<and>
   influencerSignups (cohortRow e teacher loc per clients cb cs) \<le> newClients (cohortRow e teacher loc per clients cb cs) \<and>
   trials (cohortRow e teacher loc per clients cb cs) + referrals (cohortRow e teacher loc per clients cb cs) +
   hosted (cohortRow e teacher loc per clients cb cs) + influencerSignups (cohortRow e teacher loc per clients cb cs) +
   others (cohortRow e teacher loc per clients cb cs) = newClients (cohortRow e teacher loc per clients cb cs)"
  by (simp add: cohortRow_fields count_trials_def count_referrals_def count_hosted_def
        count_influencerSignups_def count_others_def)

text \<open>
  The second cohort of the example run: one client, in no channel, counted under others.
\<close>

theorem channel_counts_witness:
  "cohortRow specEnv ''T1'' ''Studio A'' ''February 2024''
     [mkNew ''b@x.com'' ''Class Pack'' ''2024-02-05'' ''Trial'' ''Studio A'' (Some ''T1'')]
     exBookings exCleanedSales = exRow2 \<and>
   newClients exRow2 = 1 \<and> others exRow2 = 1 \<and>
   trials exRow2 + referrals exRow2 + hosted exRow2 + influencerSignups exRow2 + others exRow2 =
     newClients exRow2"
  using channel_counts [of specEnv "''T1''" "''Studio A''" "''February 2024''"
      "[mkNew ''b@x.com'' ''Class Pack'' ''2024-02-05'' ''Trial'' ''Studio A'' (Some ''T1'')]"
      exBookings exCleanedSales]
  unfolding ex_row2 by (simp add: exRow2_def)

text \<open>
  C7 as stated fails: the tests are independent, not a priority order. The client of the
  first cohort has the referral membership, whose name also contains \<^verbatim>\<open>complimentary\<close>;
  the client counts as a referral and as an influencer sign-up, and \<^verbatim>\<open>others\<close> is -1.
\<close>

theorem channel_exclusive_counterexample:
  "map (\<lambda>row. (teacherName row, period row, newClients row,
                [trials row, referrals row, hosted row, influencerSignups row, others row]))
     (processData specEnv exNew exBookings (Some exSales)) =
   [(''T1'', ''January 2024'', 1, [0, 1, 0, 1, - 1]),
    (''T1'', ''February 2024'', 1, [0, 0, 0, 0, 1]),
    (''All Teachers'', ''January 2024'', 2, [0, 1, 0, 1, 0])]"
  by (simp add: ex_run exRow1_def exRow2_def exStudio_def)

subsection \<open>C8: an empty sales dataset\<close>

text \<open>
  C8: when the sales dataset is absent or empty, every row of the result, cohort or
  rollup, has a converted-client count of 0 and a total revenue of 0. The run has no
  failing branch, and it returns the same cohorts and rollups, with the same new-client
  counts, as a run on any other sales dataset.
\<close>

theorem empty_sales_zero:
  assumes "salesData = None \<or> salesData = Some []"
  shows "(\<forall>row \<in> set (processData e newData bookingsData salesData).
            convertedClients row = 0 \<and> totalRevenue row = 0) \<and>
         map rowKey (processData e newData bookingsData salesData) =
           map rowKey (processData e newData bookingsData otherSales)"
proof -
  define enriched where
    "enriched = enrichedNewData (cleanedNewData e newData) (cleanedBookingsData e bookingsData)"
  define cb where "cb = cleanedBookingsData e bookingsData"
  from assms have cs: "cleanedSalesData e salesData = []"
    by (auto simp: cleanedSalesData_def)
  have rows: "cohortRows e newData bookingsData salesData = fst (runLoop e enriched cb [])"
    by (simp add: cohortRows_def loopResult_def enriched_def cb_def cs Let_def)
  have studios: "studioRows e newData bookingsData salesData =
      map (\<lambda>entry. studioRates (snd entry)) (snd (runLoop e enriched cb []))"
    by (simp add: studioRows_def loopResult_def enriched_def cb_def cs Let_def)
  have zero: "\<forall>row \<in> set (fst (runLoop e enriched cb [])). convertedClients row = 0 \<and> totalRevenue row = 0"
    by (rule rows_runLoop) (simp add: cohortRow_fields convertedSales_eq converted_counts_empty)
  have "convertedClients studio = 0 \<and> totalRevenue studio = 0"
    if "studio \<in> set (studioRows e newData bookingsData salesData)" for studio
  proof -
    from that studio_row [of studio e enriched cb "[]"] obtain r rs where
      at: "rowsAt (location studio) (fst (runLoop e enriched cb [])) = r # rs" and
      st: "studio = studioRates (foldl (\<lambda>studio row. addToStudio row studio)
                      (emptyStudio (location studio) (period r)) (r # rs))"
      unfolding studios by blast
    have sub: "\<forall>row \<in> set (r # rs). convertedClients row = 0 \<and> totalRevenue row = 0"
      using zero at unfolding rowsAt_def by (metis filter_is_subset subsetD)
    then have "sum_list (map convertedClients (r # rs)) = 0" and "sum_list (map totalRevenue (r # rs)) = 0"
      by (simp_all add: sum_list_all_zero del: list.map sum_list.Cons)
    moreover have "convertedClients studio = sum_list (map convertedClients (r # rs))"
      by (subst st) (simp only: studioRates_fields fold_add_counts emptyStudio_fields add_0)
    moreover have "totalRevenue studio = sum_list (map totalRevenue (r # rs))"
      by (subst st) (simp only: studioRates_fields fold_add_counts emptyStudio_fields add_0)
    ultimately show ?thesis by simp
  qed
  with zero have "\<forall>row \<in> set (processData e newData bookingsData salesData).
      convertedClients row = 0 \<and> totalRevenue row = 0"
    by (auto simp add: processData_def rows)
  then show ?thesis
    using rowKey_processData [of e newData bookingsData salesData otherSales] by simp
qed


text \<open>
  The example run without sales: the same three rows as with the sale, all with 0
  converted clients and 0 revenue.
\<close>

theorem empty_sales_zero_witness:
  "map rowKey (processData specEnv exNew exBookings (Some [])) =
     [(''T1'', ''Studio A'', ''January 2024'', 1), (''T1'', ''Studio A'', ''February 2024'', 1),
      (''All Teachers'', ''Studio A'', ''January 2024'', 2)] \<and>
   map convertedClients (processData specEnv exNew exBookings (Some [])) = [0, 0, 0] \<and>
   map totalRevenue (processData specEnv exNew exBookings (Some [])) = [0, 0, 0]"
proof -
  have h: "Some [] = None \<or> Some [] = (Some [] :: raw_number SaleRecord list option)" by simp
  have k: "map rowKey (processData specEnv exNew exBookings (Some exSales)) =
     [(''T1'', ''Studio A'', ''January 2024'', 1), (''T1'', ''Studio A'', ''February 2024'', 1),
      (''All Teachers'', ''Studio A'', ''January 2024'', 2)]"
    by (simp add: ex_run rowKey_def exRow1_def exRow2_def exStudio_def)
  have z: "map convertedClients rows = [0, 0, 0] \<and> map totalRevenue rows = [0, 0, 0]"
    if "length rows = 3" and "\<forall>row \<in> set rows. convertedClients row = 0 \<and> totalRevenue row = 0"
    for rows :: "ProcessedTeacherData list"
  proof -
    from that(1) obtain a b c where "rows = [a, b, c]"
      by (cases rows; cases "tl rows"; cases "tl (tl rows)") auto
    with that(2) show ?thesis by simp
  qed
  from empty_sales_zero [OF h, of specEnv exNew exBookings "Some exSales"]
  have all: "\<forall>row \<in> set (processData specEnv exNew exBookings (Some [])).
      convertedClients row = 0 \<and> totalRevenue row = 0"
    and keys: "map rowKey (processData specEnv exNew exBookings (Some [])) =
      map rowKey (processData specEnv exNew exBookings (Some exSales))"
    by simp_all
  from keys k have k0: "map rowKey (processData specEnv exNew exBookings (Some [])) =
     [(''T1'', ''Studio A'', ''January 2024'', 1), (''T1'', ''Studio A'', ''February 2024'', 1),
      (''All Teachers'', ''Studio A'', ''January 2024'', 2)]" by simp
  then have "length (map rowKey (processData specEnv exNew exBookings (Some []))) = 3" by simp
  then have "length (processData specEnv exNew exBookings (Some [])) = 3" by simp
  from z [OF this all] k0 show ?thesis by simp
qed

subsection \<open>C9: guarded divisions\<close>

text \<open>
  C9: every rate of every row of the result is finite, that is, no division by zero was
  carried out; and in the computation of a cohort row and of a rollup's rates, a rate
  whose denominator (new-client count, attendance rows, a channel's member count, or the
  converted count for the average revenue) is zero is 0.
\<close>

theorem rates_guarded:
  "(\<forall>row \<in> set (processData e newData bookingsData salesData).
      retentionRate row \<noteq> None \<and> conversionRate row \<noteq> None \<and>
      averageRevenuePerClient row \<noteq> None \<and> noShowRate row \<noteq> None \<and>
      lateCancellationRate row \<noteq> None \<and> firstTimeBuyerRate row \<noteq> None \<and>
      influencerConversionRate row \<noteq> None \<and> referralConversionRate row \<noteq> None \<and>
      trialToMembershipConversion row \<noteq> None) \<and>
   (newClients (cohortRow e teacher loc per clients cb cs) = 0 \<longrightarrow>
      retentionRate (cohortRow e teacher loc per clients cb cs) = Some 0 \<and>
      conversionRate (cohortRow e teacher loc per clients cb cs) = Some 0 \<and>
      firstTimeBuyerRate (cohortRow e teacher loc per clients cb cs) = Some 0) \<and>
   (teacherBookings e teacher loc per cb = [] \<longrightarrow>
      noShowRate (cohortRow e teacher loc per clients cb cs) = Some 0 \<and>
      lateCancellationRate (cohortRow e teacher loc per clients cb cs) = Some 0) \<and>
   (influencerSignups (cohortRow e teacher loc per clients cb cs) = 0 \<longrightarrow>
      influencerConversionRate (cohortRow e teacher loc per clients cb cs) = Some 0) \<and>
   (referrals (cohortRow e teacher loc per clients cb cs) = 0 \<longrightarrow>
      referralConversionRate (cohortRow e teacher loc per clients cb cs) = Some 0) \<and>
   (trials (cohortRow e teacher loc per clients cb cs) = 0 \<longrightarrow>
      trialToMembershipConversion (cohortRow e teacher loc per clients cb cs) = Some 0) \<and>
   (convertedClients (cohortRow e teacher loc per clients cb cs) = 0 \<longrightarrow>
      averageRevenuePerClient (cohortRow e teacher loc per clients cb cs) = Some 0) \<and>
   (newClients studio = 0 \<longrightarrow>
      retentionRate (studioRates studio) = Some 0 \<and> conversionRate (studioRates studio) = Some 0) \<and>
   (convertedClients studio = 0 \<longrightarrow> averageRevenuePerClient (studioRates studio) = Some 0) \<and>
   (\<forall>row \<in> set (studioRows e newData bookingsData salesData).
      (influencerSignups row = 0 \<longrightarrow> influencerConversionRate row = Some 0) \<and>
      (referrals row = 0 \<longrightarrow> referralConversionRate row = Some 0) \<and>
      (trials row = 0 \<longrightarrow> trialToMembershipConversion row = Some 0))"
proof -
  define enriched where
    "enriched = enrichedNewData (cleanedNewData e newData) (cleanedBookingsData e bookingsData)"
  define cbs where "cbs = cleanedBookingsData e bookingsData"
  define css where "css = cleanedSalesData e salesData"
  have rows: "cohortRows e newData bookingsData salesData = fst (runLoop e enriched cbs css)"
    by (simp add: cohortRows_def loopResult_def enriched_def cbs_def css_def Let_def)
  have studios: "studioRows e newData bookingsData salesData =
      map (\<lambda>entry. studioRates (snd entry)) (snd (runLoop e enriched cbs css))"
    by (simp add: studioRows_def loopResult_def enriched_def cbs_def css_def Let_def)
  have a: "\<forall>row \<in> set (cohortRows e newData bookingsData salesData).
      retentionRate row \<noteq> None \<and> conversionRate row \<noteq> None \<and>
      averageRevenuePerClient row \<noteq> None \<and> noShowRate row \<noteq> None \<and>
      lateCancellationRate row \<noteq> None \<and> firstTimeBuyerRate row \<noteq> None \<and>
      influencerConversionRate row \<noteq> None \<and> referralConversionRate row \<noteq> None \<and>
      trialToMembershipConversion row \<noteq> None"
    unfolding rows by (rule rows_runLoop) (rule cohortRow_rates_finite)
  have b: "\<forall>row \<in> set (studioRows e newData bookingsData salesData).
      retentionRate row \<noteq> None \<and> conversionRate row \<noteq> None \<and>
      averageRevenuePerClient row \<noteq> None \<and> noShowRate row \<noteq> None \<and>
      lateCancellationRate row \<noteq> None \<and> firstTimeBuyerRate row \<noteq> None \<and>
      influencerConversionRate row \<noteq> None \<and> referralConversionRate row \<noteq> None \<and>
      trialToMembershipConversion row \<noteq> None"
    unfolding studios using studio_rates_finite [of _ e enriched cbs css] by auto
  have 1: "\<forall>row \<in> set (processData e newData bookingsData salesData).
      retentionRate row \<noteq> None \<and> conversionRate row \<noteq> None \<and>
      averageRevenuePerClient row \<noteq> None \<and> noShowRate row \<noteq> None \<and>
      lateCancellationRate row \<noteq> None \<and> firstTimeBuyerRate row \<noteq> None \<and>
      influencerConversionRate row \<noteq> None \<and> referralConversionRate row \<noteq> None \<and>
      trialToMembershipConversion row \<noteq> None"
    using a b unfolding processData_def by (metis Un_iff set_append)
  have 2: "newClients (cohortRow e teacher loc per clients cb cs) = 0 \<longrightarrow>
      retentionRate (cohortRow e teacher loc per clients cb cs) = Some 0 \<and>
      conversionRate (cohortRow e teacher loc per clients cb cs) = Some 0 \<and>
      firstTimeBuyerRate (cohortRow e teacher loc per clients cb cs) = Some 0"
    by (simp add: cohortRow_fields cohortRow_rates percentage_zero)
  have 3: "teacherBookings e teacher loc per cb = [] \<longrightarrow>
      noShowRate (cohortRow e teacher loc per clients cb cs) = Some 0 \<and>
      lateCancellationRate (cohortRow e teacher loc per clients cb cs) = Some 0"
    by (simp add: cohortRow_rates percentage_zero)
  have 4: "(influencerSignups (cohortRow e teacher loc per clients cb cs) = 0 \<longrightarrow>
      influencerConversionRate (cohortRow e teacher loc per clients cb cs) = Some 0) \<and>
   (referrals (cohortRow e teacher loc per clients cb cs) = 0 \<longrightarrow>
      referralConversionRate (cohortRow e teacher loc per clients cb cs) = Some 0) \<and>
   (trials (cohortRow e teacher loc per clients cb cs) = 0 \<longrightarrow>
      trialToMembershipConversion (cohortRow e teacher loc per clients cb cs) = Some 0)"
    by (simp add: cohortRow_fields cohortRow_rates percentage_zero)
  have 5: "convertedClients (cohortRow e teacher loc per clients cb cs) = 0 \<longrightarrow>
      averageRevenuePerClient (cohortRow e teacher loc per clients cb cs) = Some 0"
    by (simp add: cohortRow_fields cohortRow_rates averageRevenue_def)
  have 6: "(newClients studio = 0 \<longrightarrow>
      retentionRate (studioRates studio) = Some 0 \<and> conversionRate (studioRates studio) = Some 0) \<and>
   (convertedClients studio = 0 \<longrightarrow> averageRevenuePerClient (studioRates studio) = Some 0)"
    by (simp add: studioRates_rates percentage_zero averageRevenue_def)
  have 7: "\<forall>row \<in> set (studioRows e newData bookingsData salesData).
      (influencerSignups row = 0 \<longrightarrow> influencerConversionRate row = Some 0) \<and>
      (referrals row = 0 \<longrightarrow> referralConversionRate row = Some 0) \<and>
      (trials row = 0 \<longrightarrow> trialToMembershipConversion row = Some 0)"
    unfolding studios using studio_rates_finite [of _ e enriched cbs css] by auto
  from 1 2 3 4 5 6 7 show ?thesis by blast
qed

text \<open>
  A cohort computation on empty lists and the rates of an empty studio have all
  denominators zero and all rates 0 (the loop itself never builds a row for an empty
  cohort); the rates of the example run are finite.
\<close>

theorem rates_guarded_witness:
  "newClients (cohortRow specEnv ''T1'' ''Studio A'' ''January 2024'' [] [] []) = 0 \<and>
   retentionRate (cohortRow specEnv ''T1'' ''Studio A'' ''January 2024'' [] [] []) = Some 0 \<and>
   conversionRate (cohortRow specEnv ''T1'' ''Studio A'' ''January 2024'' [] [] []) = Some 0 \<and>
   firstTimeBuyerRate (cohortRow specEnv ''T1'' ''Studio A'' ''January 2024'' [] [] []) = Some 0 \<and>
   noShowRate (cohortRow specEnv ''T1'' ''Studio A'' ''January 2024'' [] [] []) = Some 0 \<and>
   lateCancellationRate (cohortRow specEnv ''T1'' ''Studio A'' ''January 2024'' [] [] []) = Some 0 \<and>
   influencerConversionRate (cohortRow specEnv ''T1'' ''Studio A'' ''January 2024'' [] [] []) = Some 0 \<and>
   referralConversionRate (cohortRow specEnv ''T1'' ''Studio A'' ''January 2024'' [] [] []) = Some 0 \<and>
   trialToMembershipConversion (cohortRow specEnv ''T1'' ''Studio A'' ''January 2024'' [] [] []) = Some 0 \<and>
   averageRevenuePerClient (cohortRow specEnv ''T1'' ''Studio A'' ''January 2024'' [] [] []) = Some 0 \<and>
   retentionRate (studioRates (emptyStudio ''Studio A'' ''January 2024'')) = Some 0 \<and>
   conversionRate (studioRates (emptyStudio ''Studio A'' ''January 2024'')) = Some 0 \<and>
   averageRevenuePerClient (studioRates (emptyStudio ''Studio A'' ''January 2024'')) = Some 0 \<and>
   map retentionRate (processData specEnv exNew exBookings (Some exSales)) = [Some 100, Some 0, Some 50] \<and>
   map trialToMembershipConversion (processData specEnv exNew exBookings (Some exSales)) =
     [Some 0, Some 0, Some 0]"
proof -
  have h: "newClients (cohortRow specEnv ''T1'' ''Studio A'' ''January 2024'' [] [] []) = 0"
    "teacherBookings specEnv ''T1'' ''Studio A'' ''January 2024'' [] = []"
    "influencerSignups (cohortRow specEnv ''T1'' ''Studio A'' ''January 2024'' [] [] []) = 0"
    "referrals (cohortRow specEnv ''T1'' ''Studio A'' ''January 2024'' [] [] []) = 0"
    "trials (cohortRow specEnv ''T1'' ''Studio A'' ''January 2024'' [] [] []) = 0"
    "convertedClients (cohortRow specEnv ''T1'' ''Studio A'' ''January 2024'' [] [] []) = 0"
    "newClients (emptyStudio ''Studio A'' ''January 2024'') = 0"
    "convertedClients (emptyStudio ''Studio A'' ''January 2024'') = 0"
    by (simp_all add: cohortRow_fields teacherBookings_def count_trials_def count_referrals_def
          count_influencerSignups_def convertedSales_eq converted_counts_empty emptyStudio_fields)
  have r: "map retentionRate (processData specEnv exNew exBookings (Some exSales)) = [Some 100, Some 0, Some 50]"
    "map trialToMembershipConversion (processData specEnv exNew exBookings (Some exSales)) =
       [Some 0, Some 0, Some 0]"
    by (simp_all add: ex_run exRow1_def exRow2_def exStudio_def)
  show ?thesis
    using rates_guarded [of specEnv exNew exBookings "Some exSales" "''T1''" "''Studio A''"
        "''January 2024''" "[]" "[]" "[]" "emptyStudio ''Studio A'' ''January 2024''"] h r
    by simp
qed

subsection \<open>C10: the converted-client count\<close>

text \<open>
  C10: the converted-client count of a cohort is the number of distinct e-mail values over
  the qualifying sales, where the value of a sale is its customer e-mail when that is not
  empty and its payer e-mail otherwise. So a qualifying sale with an empty customer e-mail
  is tallied under the payer e-mail, one with a customer e-mail under that e-mail; a sale
  matched to a member only through the payer e-mail, with another non-empty customer
  e-mail, is tallied under an e-mail that is not the member's; and for some inputs the
  count differs from the number of members whose map entry is converted.
\<close>

theorem converted_count_by_sale_email:
  "convertedClients (cohortRow e teacher loc per clients cb cs) =
     int (card ((\<lambda>sale. if Customer_email sale \<noteq> [] then Customer_email sale
                        else Paying_Customer_email sale) `
                {sale \<in> set cs. \<exists>client. matchingClient clients sale = Some client \<and>
                                          isConverted_sale e client sale})) \<and>
   convertedClientEmails (convertedSales e clients cs) =
     uniq (map (\<lambda>sale. if Customer_email sale \<noteq> [] then Customer_email sale
                       else Paying_Customer_email sale)
             (filter (\<lambda>sale. \<exists>client. matchingClient clients sale = Some client \<and>
                                       isConverted_sale e client sale) cs)) \<and>
   (sale \<in> set (convertedSales e clients cs) \<and> Customer_email sale = [] \<longrightarrow>
      Paying_Customer_email sale \<in> set (convertedClientEmails (convertedSales e clients cs))) \<and>
   (sale \<in> set (convertedSales e clients cs) \<and> Customer_email sale \<noteq> [] \<longrightarrow>
      Customer_email sale \<in> set (convertedClientEmails (convertedSales e clients cs))) \<and>
   (matchingClient clients sale = Some client \<and> Customer_email sale \<noteq> [] \<and>
    Email client \<noteq> Customer_email sale \<longrightarrow>
      Email client = Paying_Customer_email sale \<and>
      (if Customer_email sale \<noteq> [] then Customer_email sale else Paying_Customer_email sale) \<noteq>
        Email client) \<and>
   (\<exists>e' clients' cs'.
      convertedClients (cohortRow e' teacher loc per clients' cb cs') \<noteq>
      int (length (filter (\<lambda>client. case clientConversionMap e' clients' cs' (Email client) of
                                       Some status \<Rightarrow> isConverted status
                                     | None \<Rightarrow> False) clients')))"
proof -
  have q: "qualifies e clients = (\<lambda>sale. \<exists>client. matchingClient clients sale = Some client \<and>
                                       isConverted_sale e client sale)"
    by (auto simp add: qualifies_def fun_eq_iff split: option.splits)
  have se: "saleEmail = (\<lambda>sale. if Customer_email sale \<noteq> [] then Customer_email sale
                       else Paying_Customer_email sale)"
    by (simp add: saleEmail_def fun_eq_iff)
  have 0: "convertedClientEmails (convertedSales e clients cs) =
     uniq (map (\<lambda>sale. if Customer_email sale \<noteq> [] then Customer_email sale
                       else Paying_Customer_email sale)
             (filter (\<lambda>sale. \<exists>client. matchingClient clients sale = Some client \<and>
                                       isConverted_sale e client sale) cs))"
    by (simp only: convertedClientEmails_def convertedSales_eq q se)
  have "set (filter (\<lambda>sale. \<exists>client. matchingClient clients sale = Some client \<and>
                                       isConverted_sale e client sale) cs) =
        {sale \<in> set cs. \<exists>client. matchingClient clients sale = Some client \<and>
                                          isConverted_sale e client sale}"
    by simp
  then have 1: "convertedClients (cohortRow e teacher loc per clients cb cs) =
     int (card ((\<lambda>sale. if Customer_email sale \<noteq> [] then Customer_email sale
                        else Paying_Customer_email sale) `
                {sale \<in> set cs. \<exists>client. matchingClient clients sale = Some client \<and>
                                          isConverted_sale e client sale}))"
    by (simp only: cohortRow_fields 0 length_uniq set_map)
  have 2: "sale \<in> set (convertedSales e clients cs) \<and> Customer_email sale = [] \<longrightarrow>
      Paying_Customer_email sale \<in> set (convertedClientEmails (convertedSales e clients cs))"
    by (auto simp add: convertedClientEmails_def se image_iff intro!: bexI [of _ sale])
  have 3: "sale \<in> set (convertedSales e clients cs) \<and> Customer_email sale \<noteq> [] \<longrightarrow>
      Customer_email sale \<in> set (convertedClientEmails (convertedSales e clients cs))"
    by (auto simp add: convertedClientEmails_def se image_iff intro!: bexI [of _ sale])
  have 4: "matchingClient clients sale = Some client \<and> Customer_email sale \<noteq> [] \<and>
    Email client \<noteq> Customer_email sale \<longrightarrow>
      Email client = Paying_Customer_email sale \<and>
      (if Customer_email sale \<noteq> [] then Customer_email sale else Paying_Customer_email sale) \<noteq>
        Email client"
    by (auto simp add: matchingClient_def find_Some_iff)
  have map: "clientConversionMap specEnv [exClientA] [exPayerSale1, exPayerSale2] ''a@x.com'' =
      Some (attribution exPayerSale1)"
    using clientConversionMap_cases [of "''a@x.com''" "[exClientA]" specEnv "[exPayerSale1, exPayerSale2]"]
    by (simp add: ex_qualifies ex_clientA_email)
  have "convertedClients (cohortRow specEnv teacher loc per [exClientA] cb [exPayerSale1, exPayerSale2]) = 2"
    by (simp add: cohortRow_fields convertedSales_eq ex_qualifies convertedClientEmails_def uniq_def
          se ex_sale_emails)
  moreover have "int (length (filter (\<lambda>client.
        case clientConversionMap specEnv [exClientA] [exPayerSale1, exPayerSale2] (Email client) of
          Some status \<Rightarrow> isConverted status | None \<Rightarrow> False) [exClientA])) = 1"
    by (simp add: ex_clientA_email map attribution_def)
  ultimately have "convertedClients (cohortRow specEnv teacher loc per [exClientA] cb [exPayerSale1, exPayerSale2]) \<noteq>
      int (length (filter (\<lambda>client.
        case clientConversionMap specEnv [exClientA] [exPayerSale1, exPayerSale2] (Email client) of
          Some status \<Rightarrow> isConverted status | None \<Rightarrow> False) [exClientA]))"
    by simp
  then have 5: "\<exists>e' clients' cs'.
      convertedClients (cohortRow e' teacher loc per clients' cb cs') \<noteq>
      int (length (filter (\<lambda>client. case clientConversionMap e' clients' cs' (Email client) of
                                       Some status \<Rightarrow> isConverted status
                                     | None \<Rightarrow> False) clients'))"
    by blast
  from 0 1 2 3 4 5 show ?thesis by blast
qed

text \<open>
  A sale with no customer e-mail, paid by the first client, is tallied under the payer's
  address, the same address as a sale of that client's own, so the two count as 1. Two
  sales paid by the first client for two other customers count as 2, and one member is
  converted.
\<close>

theorem converted_count_by_sale_email_witness:
  "Customer_email exPayerOnlySale = [] \<and> Paying_Customer_email exPayerOnlySale = ''a@x.com'' \<and>
   convertedClientEmails (convertedSales specEnv [exClientA] [exPayerOnlySale]) = [''a@x.com''] \<and>
   convertedClients (cohortRow specEnv ''T1'' ''Studio A'' ''January 2024'' [exClientA] exBookings
                       [exPayerOnlySale, exFirstSale]) = 1 \<and>
   matchingClient [exClientA] exPayerSale1 = Some exClientA \<and>
   Email exClientA = ''a@x.com'' \<and> Paying_Customer_email exPayerSale1 = ''a@x.com'' \<and>
   Customer_email exPayerSale1 = ''z@x.com'' \<and>
   convertedClientEmails (convertedSales specEnv [exClientA] [exPayerSale1, exPayerSale2]) =
     [''z@x.com'', ''y@x.com''] \<and>
   convertedClients (cohortRow specEnv ''T1'' ''Studio A'' ''January 2024'' [exClientA] exBookings
                       [exPayerSale1, exPayerSale2]) = 2 \<and>
   clientConversionMap specEnv [exClientA] [exPayerSale1, exPayerSale2] ''a@x.com'' =
     Some (attribution exPayerSale1)"
proof -
  have m: "clientConversionMap specEnv [exClientA] [exPayerSale1, exPayerSale2] ''a@x.com'' =
      Some (attribution exPayerSale1)"
    using clientConversionMap_cases [of "''a@x.com''" "[exClientA]" specEnv "[exPayerSale1, exPayerSale2]"]
    by (simp add: ex_qualifies ex_clientA_email)
  have d: "card {''z@x.com'', ''y@x.com''} = 2" by simp
  have f: "filter (\<lambda>sale. \<exists>client. matchingClient [exClientA] sale = Some client \<and>
              isConverted_sale specEnv client sale) [exPayerOnlySale] = [exPayerOnlySale]"
     "filter (\<lambda>sale. \<exists>client. matchingClient [exClientA] sale = Some client \<and>
              isConverted_sale specEnv client sale) [exPayerSale1, exPayerSale2] = [exPayerSale1, exPayerSale2]"
    by (simp_all add: ex_payer_only ex_matching ex_sale_converted)
  have s: "{sale \<in> set [exPayerOnlySale, exFirstSale]. \<exists>client. matchingClient [exClientA] sale = Some client \<and>
              isConverted_sale specEnv client sale} = {exPayerOnlySale, exFirstSale}"
     "{sale \<in> set [exPayerSale1, exPayerSale2]. \<exists>client. matchingClient [exClientA] sale = Some client \<and>
              isConverted_sale specEnv client sale} = {exPayerSale1, exPayerSale2}"
    by (auto simp add: ex_payer_only ex_matching ex_sale_converted)
  show ?thesis
    using converted_count_by_sale_email [of specEnv "''T1''" "''Studio A''" "''January 2024''"
        "[exClientA]" exBookings "[exPayerOnlySale, exFirstSale]" exPayerOnlySale exClientA]
      converted_count_by_sale_email [of specEnv "''T1''" "''Studio A''" "''January 2024''"
        "[exClientA]" exBookings "[exPayerSale1, exPayerSale2]" exPayerSale1 exClientA]
      converted_count_by_sale_email [of specEnv "''T1''" "''Studio A''" "''January 2024''"
        "[exClientA]" exBookings "[exPayerOnlySale]" exPayerOnlySale exClientA]
    unfolding f s
    by (simp add: m d uniq_def ex_payer_only ex_sale_emails ex_matching ex_clientA_email)
qed

end
